theory Spec2Isabelle
  imports Complex_Main "HOL-Library.Word"
begin

unbundle bit_operations_syntax

section \<open>Data model\<close>

text \<open>
  The two upload handlers of the video-hosting backend
  (\<^verbatim>\<open>handler_upload_video.go\<close>, \<^verbatim>\<open>handler_upload_thumbnail.go\<close>) and their
  helpers \<^verbatim>\<open>getVideoAspectRatio\<close> and \<^verbatim>\<open>processVideoForFastStart\<close>.
\<close>

type_synonym byte = "8 word"

text \<open>A \<^verbatim>\<open>uuid.UUID\<close> is a 128-bit value; the handlers only compare UUIDs.\<close>

type_synonym uuid = nat

text \<open>A Go \<^verbatim>\<open>error\<close> value, with its message.\<close>

datatype error = Error string

definition errors_New :: "string \<Rightarrow> error" where
  "errors_New msg = Error msg"

subsection \<open>float64\<close>

text \<open>
  Go's \<^verbatim>\<open>float64\<close> is IEEE 754 binary64. A value is a NaN, an infinity with its
  sign (\<open>True\<close> is negative), or a finite number given by its sign and its magnitude, so
  that \<open>Finite True 0\<close> is the negative zero.
\<close>

datatype float64 = NaN | Inf bool | Finite bool rat

definition f64_value :: "bool \<Rightarrow> rat \<Rightarrow> rat" where
  "f64_value neg m = (if neg then - m else m)"

text \<open>The comparison \<^verbatim>\<open><\<close>: false whenever an operand is NaN; the zeros are equal.\<close>

fun f64_lt :: "float64 \<Rightarrow> float64 \<Rightarrow> bool" where
  "f64_lt NaN _ = False"
| "f64_lt _ NaN = False"
| "f64_lt (Inf s) (Inf t) = (s \<and> \<not> t)"
| "f64_lt (Inf s) (Finite t n) = s"
| "f64_lt (Finite s m) (Inf t) = (\<not> t)"
| "f64_lt (Finite s m) (Finite t n) = (f64_value s m < f64_value t n)"

definition f64_gt :: "float64 \<Rightarrow> float64 \<Rightarrow> bool" where
  "f64_gt a b = f64_lt b a"

text \<open>The comparisons \<^verbatim>\<open>==\<close> and \<^verbatim>\<open><=\<close>, used to state properties.\<close>

fun f64_eq :: "float64 \<Rightarrow> float64 \<Rightarrow> bool" where
  "f64_eq NaN _ = False"
| "f64_eq _ NaN = False"
| "f64_eq (Inf s) (Inf t) = (s = t)"
| "f64_eq (Inf s) (Finite t n) = False"
| "f64_eq (Finite s m) (Inf t) = False"
| "f64_eq (Finite s m) (Finite t n) = (f64_value s m = f64_value t n)"

definition f64_le :: "float64 \<Rightarrow> float64 \<Rightarrow> bool" where
  "f64_le a b = (f64_lt a b \<or> f64_eq a b)"

text \<open>Number of bits of a positive integer (\<^verbatim>\<open>bits.Len\<close>).\<close>

function bits_Len :: "int \<Rightarrow> int" where
  "bits_Len n = (if n \<le> 0 then 0 else 1 + bits_Len (n div 2))"
  by pat_completeness auto
termination
  by (relation "measure nat") auto

declare bits_Len.simps [simp del]

text \<open>For \<open>q > 0\<close>, the exponent \<open>e\<close> with \<open>2\<^sup>e \<le> q < 2\<^sup>e\<^sup>+\<^sup>1\<close>.\<close>

definition floor_log2 :: "rat \<Rightarrow> int" where
  "floor_log2 q =
     (let (n, d) = quotient_of q;
          k = bits_Len n - bits_Len d
      in if 2 powi k \<le> q then k else k - 1)"

text \<open>Rounding to the nearest integer, ties to even.\<close>

definition round_half_even :: "rat \<Rightarrow> int" where
  "round_half_even x =
     (let f = \<lfloor>x\<rfloor>; r = x - of_int f
      in if r < 1 / 2 then f
         else if 1 / 2 < r then f + 1
         else if even f then f else f + 1)"

text \<open>
  Rounding a positive rational to binary64 (round to nearest, ties to even): 53
  significant bits, the smallest quantum \<open>2\<^sup>-\<^sup>1\<^sup>0\<^sup>7\<^sup>4\<close> (subnormal numbers), overflow to
  an infinity from \<open>2\<^sup>1\<^sup>0\<^sup>2\<^sup>4\<close>.
\<close>

definition f64_round :: "bool \<Rightarrow> rat \<Rightarrow> float64" where
  "f64_round neg q =
     (let e = floor_log2 q;
          p = max (e - 52) (- 1074);
          v = of_int (round_half_even (q / 2 powi p)) * 2 powi p
      in if 2 powi 1024 \<le> v then Inf neg else Finite neg v)"

text \<open>The division \<^verbatim>\<open>/\<close> of two float64 values; it never panics.\<close>

fun f64_div :: "float64 \<Rightarrow> float64 \<Rightarrow> float64" where
  "f64_div NaN _ = NaN"
| "f64_div _ NaN = NaN"
| "f64_div (Inf s) (Inf t) = NaN"
| "f64_div (Inf s) (Finite t n) = Inf (s \<noteq> t)"
| "f64_div (Finite s m) (Inf t) = Finite (s \<noteq> t) 0"
| "f64_div (Finite s m) (Finite t n) =
     (if n = 0 then (if m = 0 then NaN else Inf (s \<noteq> t))
      else if m = 0 then Finite (s \<noteq> t) 0
      else f64_round (s \<noteq> t) (m / n))"

text \<open>The constants \<^verbatim>\<open>1.0\<close> and \<^verbatim>\<open>2.0\<close>.\<close>

definition f64_1 :: float64 where
  "f64_1 = Finite False 1"

definition f64_2 :: float64 where
  "f64_2 = Finite False 2"

subsection \<open>Records of the program\<close>

text \<open>The video record of the metadata store, with the fields the handlers use.\<close>

record video =
  ID :: uuid
  UserID :: uuid
  VideoURL :: "string option"
  ThumbnailURL :: "string option"

text \<open>An element of \<^verbatim>\<open>data.Streams\<close> in \<^verbatim>\<open>getVideoAspectRatio\<close>.\<close>

record stream =
  Height :: float64
  Width :: float64

text \<open>
  The collaborators of the helpers that are outside the two files: running a command
  with its arguments and returning its standard output (\<^verbatim>\<open>exec.Command\<close>,
  \<^verbatim>\<open>cmd.Run\<close>), and decoding the prober's JSON into the stream list
  (\<^verbatim>\<open>json.Unmarshal\<close>, whose error the source overwrites without reading).
\<close>

record tools =
  exec_Run :: "string \<Rightarrow> string list \<Rightarrow> error + string"
  json_Unmarshal :: "string \<Rightarrow> stream list"

section \<open>Library functions the handlers call\<close>

subsection \<open>base64.RawURLEncoding\<close>

text \<open>The URL-safe alphabet of \<^verbatim>\<open>encoding/base64\<close>.\<close>

definition encodeURL :: string where
  "encodeURL = ''ABCDEFGHIJKLMNOPQRSTUVWXYZabcdefghijklmnopqrstuvwxyz0123456789-_''"

definition encode_at :: "32 word \<Rightarrow> char" where
  "encode_at i = encodeURL ! unat (i AND 0x3F)"

text \<open>
  \<^verbatim>\<open>EncodeToString\<close> without padding: three bytes give four characters, a rest of
  two bytes gives three and a rest of one byte gives two.
\<close>

fun EncodeToString :: "byte list \<Rightarrow> string" where
  "EncodeToString (a # b # c # src) =
     (let val = push_bit 16 (ucast a) OR push_bit 8 (ucast b) OR ucast c
      in encode_at (drop_bit 18 val) # encode_at (drop_bit 12 val) #
         encode_at (drop_bit 6 val) # encode_at val # EncodeToString src)"
| "EncodeToString [a, b] =
     (let val = push_bit 16 (ucast a) OR push_bit 8 (ucast b)
      in [encode_at (drop_bit 18 val), encode_at (drop_bit 12 val),
          encode_at (drop_bit 6 val)])"
| "EncodeToString [a] =
     (let val = push_bit 16 (ucast a)
      in [encode_at (drop_bit 18 val), encode_at (drop_bit 12 val)])"
| "EncodeToString [] = []"

subsection \<open>crypto/rand\<close>

text \<open>
  \<^verbatim>\<open>randBuf := make([]byte, 32)\<close> followed by \<^verbatim>\<open>rand.Read(randBuf)\<close>: the
  buffer keeps its length, and the bytes the source of randomness delivers overwrite its
  start.
\<close>

definition make_bytes :: "nat \<Rightarrow> byte list" where
  "make_bytes n = replicate n 0"

definition read_into :: "byte list \<Rightarrow> byte list \<Rightarrow> byte list" where
  "read_into buf delivered =
     take (length buf) delivered @ drop (length delivered) buf"

subsection \<open>strings and fmt\<close>

text \<open>\<^verbatim>\<open>strings.Split(s, sep)\<close> for a separator of one character.\<close>

fun strings_Split :: "string \<Rightarrow> char \<Rightarrow> string list" where
  "strings_Split [] sep = ['''']"
| "strings_Split (x # xs) sep =
     (if x = sep then [] # strings_Split xs sep
      else (case strings_Split xs sep of
              [] \<Rightarrow> [x # '''']
            | y # ys \<Rightarrow> (x # y) # ys))"

text \<open>Indexing a slice panics when the index is out of range.\<close>

definition index :: "'a list \<Rightarrow> nat \<Rightarrow> 'a option" where
  "index xs i = (if i < length xs then Some (xs ! i) else None)"

text \<open>\<^verbatim>\<open>strings.Join(elems, sep)\<close>.\<close>

fun strings_Join :: "string list \<Rightarrow> string \<Rightarrow> string" where
  "strings_Join [] sep = []"
| "strings_Join [e] sep = e"
| "strings_Join (e # es) sep = e @ sep @ strings_Join es sep"

subsection \<open>path/filepath\<close>

text \<open>
  \<^verbatim>\<open>filepath.Clean\<close> on a system whose separator is the slash: empty and \<open>.\<close>
  elements are dropped, a \<open>..\<close> element removes the element before it unless there is
  none or that is a \<open>..\<close> itself, a \<open>..\<close> at the root is dropped, and the empty
  result is \<open>.\<close>.
\<close>

definition clean_step :: "bool \<Rightarrow> string \<Rightarrow> string list \<Rightarrow> string list" where
  "clean_step rooted e out =
     (if e = [] \<or> e = ''.'' then out
      else if e = ''..'' then
        (if out \<noteq> [] \<and> last out \<noteq> ''..'' then butlast out
         else if rooted then out
         else out @ [''..''])
      else out @ [e])"

definition is_rooted :: "string \<Rightarrow> bool" where
  "is_rooted path = (case path of [] \<Rightarrow> False | c # _ \<Rightarrow> c = CHR ''/'')"

definition clean_elems :: "string \<Rightarrow> string list" where
  "clean_elems path = fold (clean_step (is_rooted path)) (strings_Split path CHR ''/'') []"

definition Clean :: "string \<Rightarrow> string" where
  "Clean path =
     (let out = (if is_rooted path then ''/'' else []) @ strings_Join (clean_elems path) ''/''
      in if out = [] then ''.'' else out)"

text \<open>
  \<^verbatim>\<open>filepath.Join\<close>: the elements from the first non-empty one on, joined by the
  separator and cleaned; the empty string when every element is empty.
\<close>

definition Join :: "string list \<Rightarrow> string" where
  "Join elem =
     (case dropWhile (\<lambda>e. e = []) elem of
        [] \<Rightarrow> []
      | es \<Rightarrow> Clean (strings_Join es ''/''))"

section \<open>Requests, responses and collaborators\<close>

record apiConfig =
  jwtSecret :: string
  s3Bucket :: string
  s3CfDistribution :: string
  assetsRoot :: string
  port :: string

text \<open>
  The \<^verbatim>\<open>multipart.FileHeader\<close> of an uploaded part: \<open>Header_Get\<close> is
  \<^verbatim>\<open>header.Header.Get\<close>, the value of a header of the part, empty when absent.
\<close>

record FileHeader =
  Header_Get :: "string \<Rightarrow> string"

record request =
  PathValue :: "string \<Rightarrow> string"
  Header :: "(string \<times> string) list"

record PutObjectInput =
  Bucket :: string
  Key :: string
  Body :: string
  ContentType :: string

text \<open>
  The calls a handler makes to the world outside it, in the order it makes them: the
  metadata store, the request body, the file system, the external tools, the source of
  randomness, the object storage and the standard output. A file is named by its path;
  the uploaded part is named by its form field.
\<close>

datatype effect =
    Call_GetVideo uuid
  | Call_UpdateVideo video
  | Call_ParseMultipartForm nat
  | Call_FormFile string
  | Call_Println
  | Call_CreateTemp string string
  | Call_Create string
  | Call_Copy string string
  | Call_Seek string
  | Call_Exec string "string list"
  | Call_Open string
  | Call_RandRead nat
  | Call_PutObject PutObjectInput
  | Call_Close string
  | Call_Remove string

datatype payload = ErrorBody string | VideoBody video

text \<open>What the client gets: a status and a body, or nothing when the handler panics.\<close>

datatype response = Response nat payload | Panicked

text \<open>
  The functions of other packages that the handlers call. Each one is a parameter: a
  theorem about a handler holds for every behaviour of them. \<open>GetVideo\<close> and
  \<open>UpdateVideo\<close> work on the state \<open>'db\<close> of the metadata store, and \<open>UpdateVideo\<close>
  gives its error and the state it leaves;
  \<open>ParseMultipartForm\<close> reads the body of the request under the limit of
  \<^verbatim>\<open>http.MaxBytesReader\<close> (if one is installed) with the given memory bound;
  \<open>rand_Read\<close> gives the bytes delivered and the error.
\<close>

record 'db services =
  uuid_Parse :: "string \<Rightarrow> error + uuid"
  GetBearerToken :: "(string \<times> string) list \<Rightarrow> error + string"
  ValidateJWT :: "string \<Rightarrow> string \<Rightarrow> error + uuid"
  GetVideo :: "'db \<Rightarrow> uuid \<Rightarrow> error + video"
  UpdateVideo :: "'db \<Rightarrow> video \<Rightarrow> error option \<times> 'db"
  ParseMultipartForm :: "request \<Rightarrow> nat option \<Rightarrow> nat \<Rightarrow> error + (string \<rightharpoonup> FileHeader)"
  ParseMediaType :: "string \<Rightarrow> error + string"
  CreateTemp :: "string \<Rightarrow> string \<Rightarrow> error + string"
  os_Create :: "string \<Rightarrow> error option"
  io_Copy :: "string \<Rightarrow> string \<Rightarrow> error option"
  Seek :: "string \<Rightarrow> error option"
  Tools :: tools
  os_Open :: "string \<Rightarrow> error option"
  rand_Read :: "nat \<Rightarrow> byte list \<times> error option"
  PutObject :: "PutObjectInput \<Rightarrow> error option"

text \<open>
  The result of handling one request: the response, the calls made, and the state of
  the metadata store afterwards.
\<close>

record 'db outcome =
  response :: response
  effects :: "effect list"
  db_after :: 'db

definition StatusOK :: nat where
  "StatusOK = 200"

definition StatusBadRequest :: nat where
  "StatusBadRequest = 400"

definition StatusUnauthorized :: nat where
  "StatusUnauthorized = 401"

definition StatusNotFound :: nat where
  "StatusNotFound = 404"

definition StatusInternalServerError :: nat where
  "StatusInternalServerError = 500"

text \<open>
  Modelled from the spec: \<^verbatim>\<open>respondWithError\<close> and \<^verbatim>\<open>respondWithJSON\<close> are not
  under src/. "Every failure is mapped to an HTTP status and a JSON error body containing
  a human-readable message"; success responds "with the updated record serialized as
  JSON". The store and the calls made so far are carried along.
\<close>

definition respondWithError :: "'db \<Rightarrow> effect list \<Rightarrow> nat \<Rightarrow> string \<Rightarrow> 'db outcome" where
  "respondWithError db fx code msg =
     \<lparr>response = Response code (ErrorBody msg), effects = fx, db_after = db\<rparr>"

definition respondWithJSON :: "'db \<Rightarrow> effect list \<Rightarrow> nat \<Rightarrow> video \<Rightarrow> 'db outcome" where
  "respondWithJSON db fx code v =
     \<lparr>response = Response code (VideoBody v), effects = fx, db_after = db\<rparr>"

text \<open>A panic of the handler: no response is written; the deferred calls have run.\<close>

definition panic :: "'db \<Rightarrow> effect list \<Rightarrow> 'db outcome" where
  "panic db fx = \<lparr>response = Panicked, effects = fx, db_after = db\<rparr>"

text \<open>\<^verbatim>\<open>http.ErrMissingFile\<close>, and \<^verbatim>\<open>FormFile\<close> on a parsed form.\<close>

definition ErrMissingFile :: error where
  "ErrMissingFile = Error ''http: no such file''"

definition FormFile :: "(string \<rightharpoonup> FileHeader) \<Rightarrow> string \<Rightarrow> error + FileHeader" where
  "FormFile form key =
     (case form key of None \<Rightarrow> Inl ErrMissingFile | Some header \<Rightarrow> Inr header)"

text \<open>\<^verbatim>\<open>defaultMaxMemory\<close> of \<^verbatim>\<open>net/http\<close>, 32 MB.\<close>

definition defaultMaxMemory :: nat where
  "defaultMaxMemory = 32 * 2 ^ 20"

text \<open>
  \<^verbatim>\<open>r.FormFile(key)\<close> on a request whose form is not parsed yet: it parses the form
  with \<^verbatim>\<open>defaultMaxMemory\<close> first.
\<close>

definition request_FormFile ::
  "'db services \<Rightarrow> request \<Rightarrow> nat option \<Rightarrow> string \<Rightarrow> error + FileHeader" where
  "request_FormFile S r limit key =
     (case ParseMultipartForm S r limit defaultMaxMemory of
        Inl err \<Rightarrow> Inl err
      | Inr form \<Rightarrow> FormFile form key)"

section \<open>Media inspector and container rewriter\<close>

definition ffprobe_args :: "string \<Rightarrow> string list" where
  "ffprobe_args filePath =
     [''-v'', ''error'', ''-print_format'', ''json'', ''-show_streams'', filePath]"

definition getVideoAspectRatio :: "tools \<Rightarrow> string \<Rightarrow> error + string" where
  "getVideoAspectRatio T filePath =
     (case exec_Run T ''ffprobe'' (ffprobe_args filePath) of
        Inl err \<Rightarrow> Inl err
      | Inr buf \<Rightarrow>
          let data_Streams = json_Unmarshal T buf in
          if length data_Streams < 1
          then Inl (errors_New ''Missing video stream data'')
          else
            let result = f64_div (Width (data_Streams ! 0)) (Height (data_Streams ! 0)) in
            if f64_lt result f64_1 then Inr ''9:16''
            else if f64_gt result f64_1 \<and> f64_lt result f64_2 then Inr ''16:9''
            else Inr ''other'')"

definition ffmpeg_args :: "string \<Rightarrow> string \<Rightarrow> string list" where
  "ffmpeg_args filePath outputPath =
     [''-i'', filePath, ''-c'', ''copy'', ''-movflags'', ''faststart'', ''-f'', ''mp4'',
      outputPath]"

definition processVideoForFastStart :: "tools \<Rightarrow> string \<Rightarrow> error + string" where
  "processVideoForFastStart T filePath =
     (let outputPath = filePath @ ''.processing'' in
      case exec_Run T ''ffmpeg'' (ffmpeg_args filePath outputPath) of
        Inl err \<Rightarrow> Inl err
      | Inr _ \<Rightarrow> Inr outputPath)"

section \<open>Upload handler (video)\<close>

text \<open>The \<^verbatim>\<open>switch aspectRatio\<close> that chooses the prefix; it has no default case.\<close>

definition prefix_of :: "string \<Rightarrow> string" where
  "prefix_of aspectRatio =
     (if aspectRatio = ''16:9'' then ''landscape''
      else if aspectRatio = ''9:16'' then ''portrait''
      else if aspectRatio = ''other'' then ''other''
      else [])"

definition handlerUploadVideo ::
  "'db services \<Rightarrow> apiConfig \<Rightarrow> 'db \<Rightarrow> request \<Rightarrow> 'db outcome" where
  "handlerUploadVideo S cfg db r =
    (let limit = Some (10 * 2 ^ 30) in
     case uuid_Parse S (PathValue r ''videoID'') of
       Inl err \<Rightarrow> respondWithError db [] StatusBadRequest ''missing video id parameter''
     | Inr videoID \<Rightarrow>
    (case GetBearerToken S (Header r) of
       Inl err \<Rightarrow> respondWithError db [] StatusUnauthorized ''unauthorized''
     | Inr token \<Rightarrow>
    (case ValidateJWT S token (jwtSecret cfg) of
       Inl err \<Rightarrow> respondWithError db [] StatusUnauthorized ''unauthorized''
     | Inr userID \<Rightarrow>
    (let fx = [Call_GetVideo videoID] in
     case GetVideo S db videoID of
       Inl err \<Rightarrow> respondWithError db fx StatusNotFound ''not found''
     | Inr videoMetadata \<Rightarrow>
     if UserID videoMetadata \<noteq> userID
     then respondWithError db fx StatusUnauthorized ''unauthorized''
     else
    (let fx = fx @ [Call_FormFile ''video''] in
     case request_FormFile S r limit ''video'' of
       Inl err \<Rightarrow> respondWithError db fx StatusInternalServerError ''Could not get video file''
     | Inr header \<Rightarrow>
    (let deferred = [Call_Close ''video''] in
     case ParseMediaType S (Header_Get header ''content-type'') of
       Inl err \<Rightarrow>
         respondWithError db (fx @ deferred) StatusBadRequest ''Unable to parse mimetype''
     | Inr mediaType \<Rightarrow>
     if mediaType \<noteq> ''video/mp4''
     then respondWithError db (fx @ deferred) StatusBadRequest
            ''only video/mp4 mimetype accepted''
     else
    (let fx = fx @ [Call_CreateTemp [] ''video-upload.mp4''] in
     case CreateTemp S [] ''video-upload.mp4'' of
       Inl err \<Rightarrow>
         respondWithError db (fx @ deferred) StatusInternalServerError
           ''unable to create temp file''
     | Inr tmpFile \<Rightarrow>
    (let deferred = [Call_Close tmpFile, Call_Remove tmpFile] @ deferred;
         fx = fx @ [Call_Copy tmpFile ''video''] in
     case io_Copy S tmpFile ''video'' of
       Some err \<Rightarrow>
         respondWithError db (fx @ deferred) StatusInternalServerError ''unable to copy file''
     | None \<Rightarrow>
    (let fx = fx @ [Call_Seek tmpFile] in
     case Seek S tmpFile of
       Some err \<Rightarrow>
         respondWithError db (fx @ deferred) StatusInternalServerError
           ''unable to find file start''
     | None \<Rightarrow>
    (let fx = fx @ [Call_Exec ''ffprobe'' (ffprobe_args tmpFile)] in
     case getVideoAspectRatio (Tools S) tmpFile of
       Inl err \<Rightarrow>
         respondWithError db (fx @ deferred) StatusInternalServerError
           ''cannot get video aspect ratio''
     | Inr aspectRatio \<Rightarrow>
    (let prefix = prefix_of aspectRatio;
         fx = fx @ [Call_Exec ''ffmpeg'' (ffmpeg_args tmpFile (tmpFile @ ''.processing''))] in
     case processVideoForFastStart (Tools S) tmpFile of
       Inl err \<Rightarrow>
         respondWithError db (fx @ deferred) StatusInternalServerError
           ''unable to process video''
     | Inr processedPath \<Rightarrow>
    (let fx = fx @ [Call_Open processedPath] in
     case os_Open S processedPath of
       Some err \<Rightarrow>
         respondWithError db (fx @ deferred) StatusInternalServerError
           ''error reading processed file''
     | None \<Rightarrow>
    (case index (strings_Split mediaType CHR ''/'') 1 of
       None \<Rightarrow> panic db (fx @ deferred)
     | Some extension \<Rightarrow>
    (let fx = fx @ [Call_RandRead 32];
         (delivered, err) = rand_Read S 32;
         randBuf = read_into (make_bytes 32) delivered in
     if err \<noteq> None
     then respondWithError db (fx @ deferred) StatusInternalServerError
            ''cannot create random buf''
     else
    (let randBufBase64 = EncodeToString randBuf;
         filename = prefix @ ''/'' @ randBufBase64 @ ''.'' @ extension;
         params = \<lparr>Bucket = s3Bucket cfg, Key = filename, Body = processedPath,
                   ContentType = mediaType\<rparr>;
         fx = fx @ [Call_PutObject params] in
     case PutObject S params of
       Some err \<Rightarrow>
         respondWithError db (fx @ deferred) StatusInternalServerError
           ''unable to write to s3''
     | None \<Rightarrow>
    (let url = s3CfDistribution cfg @ ''/'' @ filename;
         videoMetadata = videoMetadata\<lparr>VideoURL := Some url\<rparr>;
         fx = fx @ [Call_UpdateVideo videoMetadata] in
     case UpdateVideo S db videoMetadata of
       (Some err, db') \<Rightarrow>
         respondWithError db' (fx @ deferred) StatusInternalServerError
           ''unable to update video metadata''
     | (None, db') \<Rightarrow>
         respondWithJSON db' (fx @ deferred) StatusOK videoMetadata))))))))))))))))"

section \<open>Upload handler (thumbnail)\<close>

definition handlerUploadThumbnail ::
  "'db services \<Rightarrow> apiConfig \<Rightarrow> 'db \<Rightarrow> request \<Rightarrow> 'db outcome" where
  "handlerUploadThumbnail S cfg db r =
    (case uuid_Parse S (PathValue r ''videoID'') of
       Inl err \<Rightarrow> respondWithError db [] StatusBadRequest ''Invalid ID''
     | Inr videoID \<Rightarrow>
    (case GetBearerToken S (Header r) of
       Inl err \<Rightarrow> respondWithError db [] StatusUnauthorized ''Couldn't find JWT''
     | Inr token \<Rightarrow>
    (case ValidateJWT S token (jwtSecret cfg) of
       Inl err \<Rightarrow> respondWithError db [] StatusUnauthorized ''Couldn't validate JWT''
     | Inr userID \<Rightarrow>
    (let fx = [Call_Println];
         maxMemory = 10 * 1024 * 1024;
         fx = fx @ [Call_ParseMultipartForm maxMemory] in
     case ParseMultipartForm S r None maxMemory of
       Inl err \<Rightarrow>
         respondWithError db fx StatusInternalServerError ''Could not parse formdata''
     | Inr form \<Rightarrow>
    (let fx = fx @ [Call_FormFile ''thumbnail''] in
     case FormFile form ''thumbnail'' of
       Inl err \<Rightarrow> respondWithError db fx StatusInternalServerError ''Unable to read file''
     | Inr header \<Rightarrow>
    (let fx = fx @ [Call_GetVideo videoID] in
     case GetVideo S db videoID of
       Inl err \<Rightarrow> respondWithError db fx StatusNotFound ''Video not found''
     | Inr video \<Rightarrow>
     if UserID video \<noteq> userID
     then respondWithError db fx StatusUnauthorized ''Unauthorized''
     else
    (case ParseMediaType S (Header_Get header ''content-type'') of
       Inl err \<Rightarrow>
         respondWithError db fx StatusInternalServerError ''could not parse media type''
     | Inr mediaType \<Rightarrow>
     if mediaType \<noteq> ''image/jpeg'' \<and> mediaType \<noteq> ''image/png''
     then respondWithError db fx StatusBadRequest ''invalid media type''
     else
    (case index (strings_Split mediaType CHR ''/'') 1 of
       None \<Rightarrow> panic db fx
     | Some extension \<Rightarrow>
    (let fx = fx @ [Call_RandRead 32];
         (delivered, err) = rand_Read S 32;
         randBuf = read_into (make_bytes 32) delivered in
     if err \<noteq> None
     then respondWithError db fx StatusInternalServerError ''error creating random buffer''
     else
    (let randBufBase64 = EncodeToString randBuf;
         filename = randBufBase64 @ ''.'' @ extension;
         filepath = Join [assetsRoot cfg, filename];
         fx = fx @ [Call_Create filepath] in
     case os_Create S filepath of
       Some err \<Rightarrow>
         respondWithError db fx StatusInternalServerError ''could not create new file''
     | None \<Rightarrow>
    (let fx = fx @ [Call_Copy filepath ''thumbnail''] in
     case io_Copy S filepath ''thumbnail'' of
       Some err \<Rightarrow> respondWithError db fx StatusInternalServerError ''could not copy file''
     | None \<Rightarrow>
    (let thumbnailUrl = ''http://localhost:'' @ port cfg @ ''/assets/'' @ filename;
         video = video\<lparr>ThumbnailURL := Some thumbnailUrl\<rparr>;
         fx = fx @ [Call_UpdateVideo video] in
     case UpdateVideo S db video of
       (Some err, db') \<Rightarrow>
         respondWithError db' fx StatusInternalServerError ''could not update video metadata''
     | (None, db') \<Rightarrow> respondWithJSON db' fx StatusOK video))))))))))))"

section \<open>Concrete inputs\<close>

text \<open>
  A prober that prints a document and a decoder that reads one stream of the given
  width and height from it; used to instantiate the theorems below.
\<close>

definition probe_tools :: "float64 \<Rightarrow> float64 \<Rightarrow> tools" where
  "probe_tools w h =
     \<lparr>exec_Run = (\<lambda>name args. Inr ''{}''),
      json_Unmarshal = (\<lambda>buf. [\<lparr>Height = h, Width = w\<rparr>])\<rparr>"

text \<open>
  A store with one video, number 7, owned by user 1. The token \<open>alice\<close> is user 1 and
  the token \<open>bob\<close> is user 2. The body of the request parses to the given form, the temporary
  file is created, every file operation and the storage write succeed, the prober
  reports a stream of 1920 by 1080, and the random bytes are all \<open>0xAB\<close>.
\<close>

definition demo_db :: "(uuid \<times> video) list" where
  "demo_db = [(7, \<lparr>ID = 7, UserID = 1, VideoURL = None, ThumbnailURL = None\<rparr>)]"

definition demo_cfg :: apiConfig where
  "demo_cfg = \<lparr>jwtSecret = ''secret'', s3Bucket = ''bucket'',
     s3CfDistribution = ''https://cdn.example'', assetsRoot = ''./assets'', port = ''8091''\<rparr>"

definition demo_request :: "string \<Rightarrow> string \<Rightarrow> request" where
  "demo_request videoID token =
     \<lparr>PathValue = (\<lambda>name. if name = ''videoID'' then videoID else []),
      Header = (if token = [] then [] else [(''Authorization'', ''Bearer '' @ token)])\<rparr>"

definition demo_part :: "string \<Rightarrow> FileHeader" where
  "demo_part contentType =
     \<lparr>Header_Get = (\<lambda>key. if key = ''content-type'' then contentType else [])\<rparr>"

definition demo_form :: "string \<Rightarrow> string \<Rightarrow> error + (string \<rightharpoonup> FileHeader)" where
  "demo_form field contentType = Inr [field \<mapsto> demo_part contentType]"

definition demo_services ::
  "(error + (string \<rightharpoonup> FileHeader)) \<Rightarrow> (uuid \<times> video) list services" where
  "demo_services form =
     \<lparr>uuid_Parse = (\<lambda>s. if s = ''7'' then Inr 7 else if s = ''9'' then Inr 9
                          else Inl (Error ''invalid UUID'')),
      GetBearerToken = (\<lambda>h. case map_of h ''Authorization'' of
                           None \<Rightarrow> Inl (Error ''no auth header'')
                         | Some v \<Rightarrow> Inr (drop 7 v)),
      ValidateJWT = (\<lambda>token secret. if token = ''alice'' then Inr 1
                          else if token = ''bob'' then Inr 2
                          else Inl (Error ''invalid token'')),
      GetVideo = (\<lambda>db videoID. case map_of db videoID of
                           None \<Rightarrow> Inl (Error ''no rows'')
                         | Some v \<Rightarrow> Inr v),
      UpdateVideo = (\<lambda>db v. (None, (ID v, v) # db)),
      ParseMultipartForm = (\<lambda>r limit maxMemory. form),
      ParseMediaType = (\<lambda>s. if s = [] then Inl (Error ''mime: no media type'') else Inr s),
      CreateTemp = (\<lambda>dir pattern. Inr ''/tmp/video-upload.mp4123''),
      os_Create = (\<lambda>path. None),
      io_Copy = (\<lambda>dst src. None),
      Seek = (\<lambda>file. None),
      Tools = probe_tools (Finite False 1920) (Finite False 1080),
      os_Open = (\<lambda>path. None),
      rand_Read = (\<lambda>n. (replicate n 0xAB, None)),
      PutObject = (\<lambda>params. None)\<rparr>"

section \<open>Properties of the media inspector\<close>

subsection \<open>The rounding of the quotient\<close>

text \<open>
  \<open>floor_log2\<close> finds the binary exponent, and the rounded quotient of two pixel
  counts (positive integers below \<open>2\<^sup>5\<^sup>3\<close>, which float64 represents exactly) compares
  with 1.0 and 2.0 as the exact quotient does.
\<close>

lemma bits_Len_bounds:
  "0 < n \<Longrightarrow> 1 \<le> bits_Len n \<and> 2 ^ nat (bits_Len n - 1) \<le> n \<and> n < 2 ^ nat (bits_Len n)"
proof (induction n rule: bits_Len.induct)
  case (1 n)
  show ?case
  proof (cases "n div 2 = 0")
    case True
    with 1 have n1: "n = 1" by linarith
    have "bits_Len 1 = 1"
      by (simp add: bits_Len.simps)
    with n1 show ?thesis by simp
  next
    case False
    with 1 have pos: "0 < n div 2" by linarith
    from 1 pos have IH: "1 \<le> bits_Len (n div 2)"
      "2 ^ nat (bits_Len (n div 2) - 1) \<le> n div 2" "n div 2 < 2 ^ nat (bits_Len (n div 2))"
      by auto
    have eq: "bits_Len n = 1 + bits_Len (n div 2)"
      using 1(2) by (subst bits_Len.simps) simp
    have e1: "nat (bits_Len n - 1) = Suc (nat (bits_Len (n div 2) - 1))"
      using eq IH(1) by simp
    have e2: "nat (bits_Len n) = Suc (nat (bits_Len (n div 2)))"
      using eq IH(1) by simp
    have lo: "2 ^ nat (bits_Len n - 1) \<le> n"
      using IH(2) by (simp add: e1)
    have hi: "n < 2 ^ nat (bits_Len n)"
      using IH(3) by (simp add: e2)
    from eq IH(1) lo hi show ?thesis by simp
  qed
qed

lemma bits_Len_powi:
  assumes "0 < n"
  shows "(2::rat) powi (bits_Len n - 1) \<le> of_int n" "of_int n < (2::rat) powi (bits_Len n)"
proof -
  from bits_Len_bounds [OF assms]
  have b: "1 \<le> bits_Len n" "2 ^ nat (bits_Len n - 1) \<le> n" "n < 2 ^ nat (bits_Len n)"
    by auto
  have "(2::rat) powi (bits_Len n - 1) = 2 ^ nat (bits_Len n - 1)"
    using b(1) by (simp add: power_int_nonneg_exp)
  also have "\<dots> = of_int (2 ^ nat (bits_Len n - 1))"
    by simp
  also have "\<dots> \<le> of_int n"
    using b(2) by (simp only: of_int_le_iff)
  finally show "(2::rat) powi (bits_Len n - 1) \<le> of_int n" .
  have "(of_int n :: rat) < of_int (2 ^ nat (bits_Len n))"
    using b(3) by (simp only: of_int_less_iff)
  also have "\<dots> = 2 powi (bits_Len n)"
    using b(1) by (simp add: power_int_nonneg_exp)
  finally show "of_int n < (2::rat) powi (bits_Len n)" .
qed

lemma floor_log2_bounds:
  assumes "0 < q"
  shows "2 powi (floor_log2 q) \<le> q" "q < 2 powi (floor_log2 q + 1)"
proof -
  obtain n d where nd: "quotient_of q = (n, d)"
    by (cases "quotient_of q")
  have d: "0 < d"
    using nd by (rule quotient_of_denom_pos)
  have q: "q = of_int n / of_int d"
    using nd by (rule quotient_of_div)
  have n: "0 < n"
    using assms d q by (simp add: zero_less_divide_iff)
  let ?k = "bits_Len n - bits_Len d"
  have D: "0 < (of_int d :: rat)" using d by simp
  have up: "q < 2 powi (?k + 1)"
  proof -
    have "q < 2 powi (bits_Len n) / of_int d"
      unfolding q using bits_Len_powi(2) [OF n] D by (simp add: divide_strict_right_mono)
    also have "\<dots> \<le> 2 powi (bits_Len n) / 2 powi (bits_Len d - 1)"
      using bits_Len_powi(1) [OF d] by (intro frac_le) simp_all
    also have "\<dots> = 2 powi (?k + 1)"
      by (simp add: power_int_diff [symmetric] algebra_simps)
    finally show ?thesis .
  qed
  have lo: "2 powi (?k - 1) < q"
  proof -
    have "(2::rat) powi (?k - 1) = 2 powi (bits_Len n - 1) / 2 powi (bits_Len d)"
      by (simp add: power_int_diff [symmetric] algebra_simps)
    also have "\<dots> \<le> of_int n / 2 powi (bits_Len d)"
      using bits_Len_powi(1) [OF n] by (simp add: divide_right_mono)
    also have "\<dots> < of_int n / of_int d"
      using bits_Len_powi(2) [OF d] n D by (intro frac_less2) simp_all
    finally show ?thesis using q by simp
  qed
  show "2 powi (floor_log2 q) \<le> q"
    using lo by (auto simp: floor_log2_def nd Let_def)
  show "q < 2 powi (floor_log2 q + 1)"
    using up by (auto simp: floor_log2_def nd Let_def)
qed

lemma round_half_even_cases:
  "(x - of_int \<lfloor>x\<rfloor> < 1 / 2 \<and> round_half_even x = \<lfloor>x\<rfloor>) \<or>
   (1 / 2 \<le> x - of_int \<lfloor>x\<rfloor> \<and> 1 / 2 < x - of_int \<lfloor>x\<rfloor> \<and> round_half_even x = \<lfloor>x\<rfloor> + 1) \<or>
   (x - of_int \<lfloor>x\<rfloor> = 1 / 2 \<and> (round_half_even x = \<lfloor>x\<rfloor> \<or> round_half_even x = \<lfloor>x\<rfloor> + 1))"
  by (auto simp: round_half_even_def Let_def)

lemma round_half_even_le:
  assumes "x \<le> of_int n"
  shows "round_half_even x \<le> n"
proof -
  define f where "f = \<lfloor>x\<rfloor>"
  have fl: "of_int f \<le> x" "x < of_int f + 1"
    using floor_correct [of x] by (simp_all add: f_def)
  have "(of_int f :: rat) \<le> of_int n"
    using fl assms by linarith
  then have a: "f \<le> n"
    by simp
  have b: "f + 1 \<le> n" if "1 / 2 \<le> x - of_int f"
  proof -
    have "(of_int f :: rat) < of_int n"
      using that assms by linarith
    then have "f < n" by simp
    then show ?thesis by simp
  qed
  show ?thesis
    using round_half_even_cases [of x] a b unfolding f_def by auto
qed

lemma round_half_even_ge:
  assumes "of_int n \<le> x"
  shows "n \<le> round_half_even x"
proof -
  have "n \<le> \<lfloor>x\<rfloor>"
    using assms by (simp add: le_floor_iff)
  then show ?thesis
    using round_half_even_cases [of x] by auto
qed

lemma round_half_even_below_half:
  assumes "x < of_int n + 1 / 2"
  shows "round_half_even x \<le> n"
proof -
  define f where "f = \<lfloor>x\<rfloor>"
  have fl: "of_int f \<le> x" "x < of_int f + 1"
    using floor_correct [of x] by (simp_all add: f_def)
  have "(of_int f :: rat) < of_int n + 1"
    using fl assms by linarith
  then have "(of_int f :: rat) < of_int (n + 1)"
    by simp
  then have a: "f \<le> n"
    unfolding of_int_less_iff by simp
  have b: "f + 1 \<le> n" if "1 / 2 \<le> x - of_int f"
  proof -
    have "(of_int f :: rat) < of_int n"
      using that assms by linarith
    then have "f < n" by simp
    then show ?thesis by simp
  qed
  show ?thesis
    using round_half_even_cases [of x] a b unfolding f_def by auto
qed

lemma round_half_even_above_half:
  assumes "of_int n + 1 / 2 < x"
  shows "n + 1 \<le> round_half_even x"
proof -
  define f where "f = \<lfloor>x\<rfloor>"
  have fl: "of_int f \<le> x" "x < of_int f + 1"
    using floor_correct [of x] by (simp_all add: f_def)
  have "(of_int n :: rat) < of_int (f + 1)"
    using fl assms by simp
  then have a: "n \<le> f"
    unfolding of_int_less_iff by simp
  have b: "n + 1 \<le> f" if "x - of_int f \<le> 1 / 2"
  proof -
    have "(of_int n :: rat) < of_int f"
      using that assms by linarith
    then have "n < f" by simp
    then show ?thesis by simp
  qed
  show ?thesis
    using round_half_even_cases [of x] a b unfolding f_def by auto
qed


lemma f64_round_normal:
  assumes q: "0 < q" and lo: "- 1022 \<le> floor_log2 q" and hi: "floor_log2 q \<le> 1022"
  defines "p \<equiv> floor_log2 q - 52"
  defines "k \<equiv> round_half_even (q / 2 powi p)"
  shows "f64_round neg q = Finite neg (of_int k * 2 powi p)"
    and "2 ^ 52 \<le> k" and "k \<le> 2 ^ 53"
proof -
  let ?e = "floor_log2 q"
  have P: "0 < (2::rat) powi p"
    by simp
  have e1: "(2::rat) powi ?e = 2 ^ 52 * 2 powi p"
    unfolding p_def by (simp add: power_int_diff)
  have e2: "(2::rat) powi (?e + 1) = 2 ^ 53 * 2 powi p"
    unfolding p_def by (simp add: power_int_diff power_int_add)
  have "2 ^ 52 * 2 powi p \<le> q"
    using floor_log2_bounds(1) [OF q] e1 by simp
  then have "(2 ^ 52 :: rat) \<le> q / 2 powi p"
    using P by (simp add: pos_le_divide_eq)
  then have "rat_of_int (2 ^ 52) \<le> q / 2 powi p"
    by simp
  then show k_lo: "2 ^ 52 \<le> k"
    unfolding k_def by (rule round_half_even_ge)
  have "q < 2 ^ 53 * 2 powi p"
    using floor_log2_bounds(2) [OF q] e2 by simp
  then have "q / 2 powi p < 2 ^ 53"
    using P by (simp add: pos_divide_less_eq)
  then have "q / 2 powi p \<le> rat_of_int (2 ^ 53)"
    by simp
  then show k_hi: "k \<le> 2 ^ 53"
    unfolding k_def by (rule round_half_even_le)
  have "rat_of_int k \<le> rat_of_int (2 ^ 53)"
    using k_hi by (simp only: of_int_le_iff)
  then have "of_int k * 2 powi p \<le> 2 ^ 53 * (2::rat) powi p"
    using P by simp
  also have "\<dots> = 2 powi (?e + 1)"
    using e2 by simp
  also have "\<dots> \<le> 2 powi 1023"
    using hi by (intro power_int_increasing) simp_all
  also have "\<dots> < (2::rat) powi 1024"
    by (intro power_int_strict_increasing) simp_all
  finally have no_overflow: "\<not> 2 powi 1024 \<le> of_int k * (2::rat) powi p" 
    by simp
  have pm: "max (?e - 52) (- 1074) = p"
    using lo by (simp add: p_def)
  show "f64_round neg q = Finite neg (of_int k * 2 powi p)"
    using no_overflow unfolding f64_round_def Let_def pm k_def [symmetric] by simp
qed


lemma powi_exp_less:
  assumes "(2::rat) powi m \<le> q" and "q < 2 powi n"
  shows "m < n"
proof (rule ccontr)
  assume "\<not> m < n"
  then have "(2::rat) powi n \<le> 2 powi m"
    by (intro power_int_increasing) simp_all
  with assms show False by simp
qed

lemma rat_of_int_le: "a \<le> b \<Longrightarrow> rat_of_int a \<le> rat_of_int b"
  by simp

lemma pixel_ratio:
  fixes w h :: int
  assumes w: "0 < w" "w < 2 ^ 53" and h: "0 < h" "h < 2 ^ 53"
  defines "r \<equiv> f64_div (Finite False (of_int w)) (Finite False (of_int h))"
  shows "f64_lt r f64_1 \<longleftrightarrow> w < h"
    and "f64_gt r f64_1 \<longleftrightarrow> h < w"
    and "f64_lt r f64_2 \<longleftrightarrow> w < 2 * h"
proof -
  define W H :: rat where "W = of_int w" and "H = of_int h"
  define q where "q = W / H"
  define e where "e = floor_log2 q"
  define p where "p = e - 52"
  define k where "k = round_half_even (q / 2 powi p)"
  define v where "v = rat_of_int k * 2 powi p"
  have W: "1 \<le> W" "W \<le> 2 ^ 53 - 1"
    using w rat_of_int_le [of 1 w] rat_of_int_le [of w "2 ^ 53 - 1"] by (simp_all add: W_def)
  have H: "1 \<le> H" "H \<le> 2 ^ 53 - 1"
    using h rat_of_int_le [of 1 h] rat_of_int_le [of h "2 ^ 53 - 1"] by (simp_all add: H_def)
  have q: "0 < q"
    using W H by (simp add: q_def)
  have Lo: "2 powi e \<le> q" and Hi: "q < 2 powi (e + 1)"
    unfolding e_def using floor_log2_bounds [OF q] by simp_all
  have "q \<le> W"
    using W H by (simp add: q_def field_simps)
  then have "q < 2 powi 53"
    using W by simp
  with Lo have e_hi: "e < 53"
    by (rule powi_exp_less)
  have "1 / 2 ^ 53 \<le> q"
    using W H by (simp add: q_def field_simps)
  then have "2 powi (- 53) \<le> q"
    by (simp add: power_int_minus_divide)
  from this Hi have e_lo: "- 53 < e + 1"
    by (rule powi_exp_less)
  have lo': "- 1022 \<le> floor_log2 q" and hi': "floor_log2 q \<le> 1022"
    using e_lo e_hi by (simp_all add: e_def)
  have normal: "r = Finite False v" "2 ^ 52 \<le> k" "k \<le> 2 ^ 53"
    using f64_round_normal(1) [OF q lo' hi', of False] f64_round_normal(2,3) [OF q lo' hi']
      w(1) h(1)
    unfolding r_def v_def k_def p_def e_def q_def W_def H_def by simp_all
  have P: "0 < (2::rat) powi p"
    by simp
  have v_lo: "2 powi e \<le> v"
  proof -
    have "(2::rat) powi e = 2 ^ 52 * 2 powi p"
      unfolding p_def by (simp add: power_int_diff)
    also have "\<dots> \<le> of_int k * 2 powi p"
      using rat_of_int_le [OF normal(2)] P by simp
    finally show ?thesis unfolding v_def .
  qed
  have v_hi: "v \<le> 2 powi (e + 1)"
  proof -
    have "of_int k * 2 powi p \<le> 2 ^ 53 * (2::rat) powi p"
      using rat_of_int_le [OF normal(3)] P by simp
    also have "\<dots> = 2 powi (e + 1)"
      unfolding p_def by (simp add: power_int_diff power_int_add)
    finally show ?thesis unfolding v_def .
  qed
  have A1: "v < 1" if "w < h"
  proof -
    from that have WH: "W + 1 \<le> H"
      using rat_of_int_le [of "w + 1" h] by (simp add: W_def H_def)
    then have "q < 2 powi 0"
      using H by (simp add: q_def)
    with Lo have "e < 0"
      by (rule powi_exp_less)
    show ?thesis
    proof (cases "e = - 1")
      case True
      then have p: "p = - 53" by (simp add: p_def)
      have "q / 2 powi p = W * 2 ^ 53 / H"
        by (simp add: p q_def power_int_minus_divide)
      also have "\<dots> \<le> 2 ^ 53 - 1"
        using WH H by (simp add: pos_divide_le_eq)
      finally have "q / 2 powi p \<le> rat_of_int (2 ^ 53 - 1)"
        by simp
      then have "k \<le> 2 ^ 53 - 1"
        unfolding k_def by (rule round_half_even_le)
      then have "rat_of_int k \<le> 2 ^ 53 - 1"
        using rat_of_int_le [of k "2 ^ 53 - 1"] by simp
      then show ?thesis
        by (simp add: v_def p power_int_minus_divide pos_divide_less_eq)
    next
      case False
      with \<open>e < 0\<close> have "e + 1 \<le> - 1" by simp
      then have "(2::rat) powi (e + 1) \<le> 2 powi (- 1)"
        by (intro power_int_increasing) simp_all
      with v_hi show ?thesis
        by (simp add: power_int_minus_divide)
    qed
  qed
  have A2: "1 \<le> v" if "h \<le> w"
  proof -
    from that have "H \<le> W"
      unfolding W_def H_def by simp
    then have "2 powi 0 \<le> q"
      using H by (simp add: q_def)
    from this Hi have "0 < e + 1"
      by (rule powi_exp_less)
    then have "(2::rat) powi 0 \<le> 2 powi e"
      by (intro power_int_increasing) simp_all
    with v_lo show ?thesis by simp
  qed
  have B1: "1 < v" if "h < w"
  proof -
    from that have WH: "H + 1 \<le> W"
      using rat_of_int_le [of "h + 1" w] by (simp add: W_def H_def)
    then have "2 powi 0 \<le> q"
      using H by (simp add: q_def)
    from this Hi have e0: "0 < e + 1"
      by (rule powi_exp_less)
    show ?thesis
    proof (cases "e = 0")
      case True
      then have p: "p = - 52" by (simp add: p_def)
      have "rat_of_int (2 ^ 52) + 1 / 2 < W * 2 ^ 52 / H"
        using WH H by (simp add: pos_less_divide_eq algebra_simps)
      also have "\<dots> = q / 2 powi p"
        by (simp add: p q_def power_int_minus_divide)
      finally have "2 ^ 52 + 1 \<le> k"
        unfolding k_def by (rule round_half_even_above_half)
      then have "2 ^ 52 + 1 \<le> rat_of_int k"
        using rat_of_int_le [of "2 ^ 52 + 1" k] by simp
      then show ?thesis
        by (simp add: v_def p power_int_minus_divide pos_less_divide_eq)
    next
      case False
      with e0 have "1 \<le> e" by simp
      then have "(2::rat) powi 1 \<le> 2 powi e"
        by (intro power_int_increasing) simp_all
      with v_lo show ?thesis by simp
    qed
  qed
  have B2: "v \<le> 1" if "w \<le> h"
  proof (cases "w < h")
    case True
    then show ?thesis using A1 by simp
  next
    case False
    with that have "w = h" by simp
    then have q1: "q = 1"
      using H by (simp add: q_def W_def H_def)
    with Lo have "e < 1"
      using powi_exp_less [of e q 1] by simp
    moreover from q1 Hi have "0 < e + 1"
      using powi_exp_less [of 0 q "e + 1"] by simp
    ultimately have p: "p = - 52" by (simp add: p_def)
    have "q / 2 powi p = rat_of_int (2 ^ 52)"
      by (simp add: q1 p power_int_minus_divide)
    then have "k \<le> 2 ^ 52"
      unfolding k_def by (intro round_half_even_le) simp
    then have "rat_of_int k \<le> 2 ^ 52"
      using rat_of_int_le [of k "2 ^ 52"] by simp
    then show ?thesis
      by (simp add: v_def p power_int_minus_divide pos_divide_le_eq)
  qed
  have C1: "v < 2" if "w < 2 * h"
  proof -
    from that have WH: "W + 1 \<le> 2 * H"
      using rat_of_int_le [of "w + 1" "2 * h"] by (simp add: W_def H_def)
    then have "q < 2 powi 1"
      using H by (simp add: q_def pos_divide_less_eq)
    with Lo have e1: "e < 1"
      by (rule powi_exp_less)
    show ?thesis
    proof (cases "e = 0")
      case True
      then have p: "p = - 52" by (simp add: p_def)
      have "q / 2 powi p = W * 2 ^ 52 / H"
        by (simp add: p q_def power_int_minus_divide)
      also have "\<dots> < rat_of_int (2 ^ 53 - 1) + 1 / 2"
        using WH H by (simp add: pos_divide_less_eq algebra_simps)
      finally have "k \<le> 2 ^ 53 - 1"
        unfolding k_def by (rule round_half_even_below_half)
      then have "rat_of_int k \<le> 2 ^ 53 - 1"
        using rat_of_int_le [of k "2 ^ 53 - 1"] by simp
      then show ?thesis
        by (simp add: v_def p power_int_minus_divide pos_divide_less_eq)
    next
      case False
      with e1 have "e + 1 \<le> 0" by simp
      then have "(2::rat) powi (e + 1) \<le> 2 powi 0"
        by (intro power_int_increasing) simp_all
      with v_hi show ?thesis by simp
    qed
  qed
  have C2: "2 \<le> v" if "2 * h \<le> w"
  proof -
    from that have "2 * H \<le> W"
      using rat_of_int_le [of "2 * h" w] by (simp add: W_def H_def)
    then have "2 powi 1 \<le> q"
      using H by (simp add: q_def pos_le_divide_eq)
    from this Hi have "1 < e + 1"
      by (rule powi_exp_less)
    then have "(2::rat) powi 1 \<le> 2 powi e"
      by (intro power_int_increasing) simp_all
    with v_lo show ?thesis by simp
  qed
  show "f64_lt r f64_1 \<longleftrightarrow> w < h"
    using A1 A2 by (auto simp: normal(1) f64_1_def f64_value_def) (meson not_le)+
  show "f64_gt r f64_1 \<longleftrightarrow> h < w"
    using B1 B2 by (auto simp: normal(1) f64_1_def f64_gt_def f64_value_def) (meson not_le)+
  show "f64_lt r f64_2 \<longleftrightarrow> w < 2 * h"
    using C1 C2 by (auto simp: normal(1) f64_2_def f64_value_def) (meson not_le)+
qed

subsection \<open>Classification\<close>

lemma aspect_ratio_streams:
  assumes "exec_Run T ''ffprobe'' (ffprobe_args p) = Inr buf"
    and "json_Unmarshal T buf = st # rest"
  shows "getVideoAspectRatio T p =
     (let result = f64_div (Width st) (Height st) in
      if f64_lt result f64_1 then Inr ''9:16''
      else if f64_gt result f64_1 \<and> f64_lt result f64_2 then Inr ''16:9''
      else Inr ''other'')"
  using assms by (simp add: getVideoAspectRatio_def Let_def)

lemma f64_le_2_not_lt:
  assumes "f64_le f64_2 r"
  shows "\<not> f64_lt r f64_1 \<and> \<not> f64_lt r f64_2"
  using assms
  by (cases r) (auto simp: f64_le_def f64_1_def f64_2_def f64_value_def split: if_splits)

lemma f64_eq_1_not_lt:
  assumes "f64_eq r f64_1"
  shows "\<not> f64_lt r f64_1 \<and> \<not> f64_gt r f64_1"
  using assms
  by (cases r) (auto simp: f64_gt_def f64_1_def f64_value_def split: if_splits)

lemma ratio_1920_1080:
  "\<not> f64_lt (f64_div (Finite False 1920) (Finite False 1080)) f64_1 \<and>
   f64_gt (f64_div (Finite False 1920) (Finite False 1080)) f64_1 \<and>
   f64_lt (f64_div (Finite False 1920) (Finite False 1080)) f64_2"
  by code_simp

lemma ratio_1080_1920:
  "f64_lt (f64_div (Finite False 1080) (Finite False 1920)) f64_1"
  by code_simp

lemma ratio_1000_1000:
  "f64_eq (f64_div (Finite False 1000) (Finite False 1000)) f64_1"
  by code_simp

lemma ratio_4000_1000:
  "f64_le f64_2 (f64_div (Finite False 4000) (Finite False 1000))"
  by code_simp

text \<open>
  C1. When the prober ran and the decoded stream list starts with a stream of width
  \<open>w\<close> and height \<open>h\<close>, the result is decided by the float64 quotient \<open>r = w / h\<close>:
  \<open>r < 1.0\<close> gives 9:16, \<open>1.0 < r < 2.0\<close> gives 16:9, and every other value of \<open>r\<close>
  gives other, in particular \<open>r == 1.0\<close>, \<open>r >= 2.0\<close> and NaN. So 1920x1080 is 16:9,
  1080x1920 is 9:16 and 1000x1000 is other. For pixel counts \<open>w\<close> and \<open>h\<close> (positive
  integers below \<open>2\<^sup>5\<^sup>3\<close>) the rounding of the quotient does not matter: the result is
  9:16 exactly when \<open>w < h\<close>, 16:9 exactly when \<open>h < w < 2h\<close>, and other exactly when
  \<open>w = h\<close> or \<open>w \<ge> 2h\<close>.
\<close>

theorem getVideoAspectRatio_classification:
  assumes "exec_Run T ''ffprobe'' (ffprobe_args p) = Inr buf"
    and "json_Unmarshal T buf = st # rest"
    and "r = f64_div (Width st) (Height st)"
  shows "(f64_lt r f64_1 \<longrightarrow> getVideoAspectRatio T p = Inr ''9:16'') \<and>
     (f64_gt r f64_1 \<and> f64_lt r f64_2 \<longrightarrow> getVideoAspectRatio T p = Inr ''16:9'') \<and>
     (\<not> f64_lt r f64_1 \<and> \<not> (f64_gt r f64_1 \<and> f64_lt r f64_2) \<longrightarrow>
        getVideoAspectRatio T p = Inr ''other'') \<and>
     (f64_eq r f64_1 \<longrightarrow> getVideoAspectRatio T p = Inr ''other'') \<and>
     (f64_le f64_2 r \<longrightarrow> getVideoAspectRatio T p = Inr ''other'') \<and>
     (r = NaN \<longrightarrow> getVideoAspectRatio T p = Inr ''other'') \<and>
     (Width st = Finite False 1920 \<and> Height st = Finite False 1080 \<longrightarrow>
        getVideoAspectRatio T p = Inr ''16:9'') \<and>
     (Width st = Finite False 1080 \<and> Height st = Finite False 1920 \<longrightarrow>
        getVideoAspectRatio T p = Inr ''9:16'') \<and>
     (Width st = Finite False 1000 \<and> Height st = Finite False 1000 \<longrightarrow>
        getVideoAspectRatio T p = Inr ''other'') \<and>
     (Width st = Finite False (of_int w) \<and> Height st = Finite False (of_int h) \<and>
      0 < w \<and> w < 2 ^ 53 \<and> 0 < h \<and> h < 2 ^ 53 \<longrightarrow>
        (getVideoAspectRatio T p = Inr ''9:16'' \<longleftrightarrow> w < h) \<and>
        (getVideoAspectRatio T p = Inr ''16:9'' \<longleftrightarrow> h < w \<and> w < 2 * h) \<and>
        (getVideoAspectRatio T p = Inr ''other'' \<longleftrightarrow> w = h \<or> 2 * h \<le> w))"
proof -
  have res: "getVideoAspectRatio T p =
     (if f64_lt r f64_1 then Inr ''9:16''
      else if f64_gt r f64_1 \<and> f64_lt r f64_2 then Inr ''16:9''
      else Inr ''other'')"
    using aspect_ratio_streams [OF assms(1,2)] assms(3) by (simp add: Let_def)
  have lt_gt: "f64_lt r f64_1 \<Longrightarrow> \<not> f64_gt r f64_1"
    by (cases r) (auto simp: f64_gt_def f64_1_def f64_value_def split: if_splits)
  have c1: "f64_lt r f64_1 \<longrightarrow> getVideoAspectRatio T p = Inr ''9:16''"
    by (simp add: res)
  have c2: "f64_gt r f64_1 \<and> f64_lt r f64_2 \<longrightarrow> getVideoAspectRatio T p = Inr ''16:9''"
    using lt_gt by (auto simp: res)
  have c3: "\<not> f64_lt r f64_1 \<and> \<not> (f64_gt r f64_1 \<and> f64_lt r f64_2) \<longrightarrow>
        getVideoAspectRatio T p = Inr ''other''"
    by (auto simp: res)
  have c4: "f64_eq r f64_1 \<longrightarrow> getVideoAspectRatio T p = Inr ''other''"
    using f64_eq_1_not_lt [of r] by (auto simp: res)
  have c5: "f64_le f64_2 r \<longrightarrow> getVideoAspectRatio T p = Inr ''other''"
    using f64_le_2_not_lt [of r] by (auto simp: res)
  have c6: "r = NaN \<longrightarrow> getVideoAspectRatio T p = Inr ''other''"
    by (auto simp: res f64_gt_def f64_1_def)
  have c7: "Width st = Finite False 1920 \<and> Height st = Finite False 1080 \<longrightarrow>
        getVideoAspectRatio T p = Inr ''16:9''"
    using ratio_1920_1080 assms(3) by (auto simp: res)
  have c8: "Width st = Finite False 1080 \<and> Height st = Finite False 1920 \<longrightarrow>
        getVideoAspectRatio T p = Inr ''9:16''"
    using ratio_1080_1920 assms(3) by (auto simp: res)
  have c9: "Width st = Finite False 1000 \<and> Height st = Finite False 1000 \<longrightarrow>
        getVideoAspectRatio T p = Inr ''other''"
    using ratio_1000_1000 c4 assms(3) by auto
  have c10: "(getVideoAspectRatio T p = Inr ''9:16'' \<longleftrightarrow> w < h) \<and>
        (getVideoAspectRatio T p = Inr ''16:9'' \<longleftrightarrow> h < w \<and> w < 2 * h) \<and>
        (getVideoAspectRatio T p = Inr ''other'' \<longleftrightarrow> w = h \<or> 2 * h \<le> w)"
    if px: "Width st = Finite False (of_int w)" "Height st = Finite False (of_int h)"
      "0 < w" "w < 2 ^ 53" "0 < h" "h < 2 ^ 53"
  proof -
    have r: "r = f64_div (Finite False (of_int w)) (Finite False (of_int h))"
      using assms(3) px(1,2) by simp
    have lt1: "f64_lt r f64_1 \<longleftrightarrow> w < h"
      and gt1: "f64_gt r f64_1 \<longleftrightarrow> h < w"
      and lt2: "f64_lt r f64_2 \<longleftrightarrow> w < 2 * h"
      unfolding r using pixel_ratio [OF px(3-6)] by simp_all
    show ?thesis
      using px(3,5) by (auto simp: res lt1 gt1 lt2)
  qed
  show ?thesis
    using c1 c2 c3 c4 c5 c6 c7 c8 c9 c10 by blast
qed

theorem getVideoAspectRatio_classification_witness:
  "f64_gt (f64_div (Finite False 1920) (Finite False 1080)) f64_1 \<and>
   f64_lt (f64_div (Finite False 1920) (Finite False 1080)) f64_2 \<and>
   getVideoAspectRatio (probe_tools (Finite False 1920) (Finite False 1080)) ''/tmp/v'' = Inr ''16:9'' \<and>
   f64_lt (f64_div (Finite False 1080) (Finite False 1920)) f64_1 \<and>
   getVideoAspectRatio (probe_tools (Finite False 1080) (Finite False 1920)) ''/tmp/v'' = Inr ''9:16'' \<and>
   f64_eq (f64_div (Finite False 1000) (Finite False 1000)) f64_1 \<and>
   getVideoAspectRatio (probe_tools (Finite False 1000) (Finite False 1000)) ''/tmp/v'' = Inr ''other'' \<and>
   f64_le f64_2 (f64_div (Finite False 4000) (Finite False 1000)) \<and>
   getVideoAspectRatio (probe_tools (Finite False 4000) (Finite False 1000)) ''/tmp/v'' = Inr ''other'' \<and>
   f64_div (Finite False 0) (Finite False 0) = NaN \<and>
   getVideoAspectRatio (probe_tools (Finite False 0) (Finite False 0)) ''/tmp/v'' = Inr ''other''"
proof -
  have run: "exec_Run (probe_tools a b) ''ffprobe'' (ffprobe_args ''/tmp/v'') = Inr ''{}''" for a b
    by (simp add: probe_tools_def)
  have dec: "json_Unmarshal (probe_tools a b) ''{}'' = [\<lparr>Height = b, Width = a\<rparr>]" for a b
    by (simp add: probe_tools_def)
  have landscape: "getVideoAspectRatio (probe_tools (Finite False 1920) (Finite False 1080)) ''/tmp/v''
      = Inr ''16:9''"
    using getVideoAspectRatio_classification
        [OF run [of "Finite False 1920" "Finite False 1080"] dec [of "Finite False 1920" "Finite False 1080"] refl,
         where w = 1920 and h = 1080]
    by simp
  have portrait: "getVideoAspectRatio (probe_tools (Finite False 1080) (Finite False 1920)) ''/tmp/v''
      = Inr ''9:16''"
    using getVideoAspectRatio_classification
        [OF run [of "Finite False 1080" "Finite False 1920"] dec [of "Finite False 1080" "Finite False 1920"] refl,
         where w = 1080 and h = 1920]
      ratio_1080_1920
    by simp
  have square: "getVideoAspectRatio (probe_tools (Finite False 1000) (Finite False 1000)) ''/tmp/v''
      = Inr ''other''"
    using getVideoAspectRatio_classification
        [OF run [of "Finite False 1000" "Finite False 1000"] dec [of "Finite False 1000" "Finite False 1000"] refl,
         where w = 1000 and h = 1000]
      ratio_1000_1000
    by simp
  have wide: "getVideoAspectRatio (probe_tools (Finite False 4000) (Finite False 1000)) ''/tmp/v''
      = Inr ''other''"
    using getVideoAspectRatio_classification
        [OF run [of "Finite False 4000" "Finite False 1000"] dec [of "Finite False 4000" "Finite False 1000"] refl,
         where w = 4000 and h = 1000]
      ratio_4000_1000
    by simp
  have nan: "getVideoAspectRatio (probe_tools (Finite False 0) (Finite False 0)) ''/tmp/v''
      = Inr ''other''"
    using getVideoAspectRatio_classification
        [OF run [of "Finite False 0" "Finite False 0"] dec [of "Finite False 0" "Finite False 0"] refl]
    by simp
  show ?thesis
    using landscape portrait square wide nan ratio_1920_1080 ratio_1080_1920 ratio_1000_1000
      ratio_4000_1000
    by simp
qed

text \<open>
  C8. When the prober ran and the decoded stream list is empty, the result is the error
  "Missing video stream data" and no classification; and a classification is returned
  only when the prober ran and the decoded stream list is not empty.
\<close>

theorem getVideoAspectRatio_no_streams:
  "(exec_Run T ''ffprobe'' (ffprobe_args p) = Inr buf \<and> json_Unmarshal T buf = [] \<longrightarrow>
      getVideoAspectRatio T p = Inl (Error ''Missing video stream data'') \<and>
      getVideoAspectRatio T p \<noteq> Inr c) \<and>
   (getVideoAspectRatio T p = Inr c \<longrightarrow>
      (\<exists>out. exec_Run T ''ffprobe'' (ffprobe_args p) = Inr out \<and> json_Unmarshal T out \<noteq> []))"
proof -
  have empty: "getVideoAspectRatio T p = Inl (Error ''Missing video stream data'')"
    if "exec_Run T ''ffprobe'' (ffprobe_args p) = Inr buf" and "json_Unmarshal T buf = []"
    using that by (simp add: getVideoAspectRatio_def errors_New_def)
  have only: "\<exists>out. exec_Run T ''ffprobe'' (ffprobe_args p) = Inr out \<and> json_Unmarshal T out \<noteq> []"
    if "getVideoAspectRatio T p = Inr c"
  proof (cases "exec_Run T ''ffprobe'' (ffprobe_args p)")
    case (Inl err)
    with that show ?thesis by (simp add: getVideoAspectRatio_def)
  next
    case (Inr out)
    with that have "json_Unmarshal T out \<noteq> []"
      by (auto simp: getVideoAspectRatio_def Let_def)
    with Inr show ?thesis by simp
  qed
  show ?thesis using empty only by auto
qed

theorem getVideoAspectRatio_no_streams_witness:
  "getVideoAspectRatio \<lparr>exec_Run = (\<lambda>name args. Inr ''{}''), json_Unmarshal = (\<lambda>buf. [])\<rparr> ''/tmp/v''
     = Inl (Error ''Missing video stream data'') \<and>
   getVideoAspectRatio (probe_tools (Finite False 1080) (Finite False 1920)) ''/tmp/v'' = Inr ''9:16'' \<and>
   (\<exists>out. exec_Run (probe_tools (Finite False 1080) (Finite False 1920)) ''ffprobe''
            (ffprobe_args ''/tmp/v'') = Inr out \<and>
          json_Unmarshal (probe_tools (Finite False 1080) (Finite False 1920)) out \<noteq> [])"
proof -
  have c: "getVideoAspectRatio (probe_tools (Finite False 1080) (Finite False 1920)) ''/tmp/v''
      = Inr ''9:16''"
    using ratio_1080_1920 by (simp add: getVideoAspectRatio_def probe_tools_def)
  show ?thesis
    using getVideoAspectRatio_no_streams
        [of "\<lparr>exec_Run = (\<lambda>name args. Inr ''{}''), json_Unmarshal = (\<lambda>buf. [])\<rparr>"
            "''/tmp/v''" "''{}''" "''other''"]
      getVideoAspectRatio_no_streams
        [of "probe_tools (Finite False 1080) (Finite False 1920)" "''/tmp/v''" "''{}''" "''9:16''"]
      c
    by simp
qed

text \<open>
  C9 does not hold for the negative zero. A first stream of width 1920 and height
  \<open>-0.0\<close>, which compares equal to zero and is what a JSON \<open>-0\<close> decodes to: the
  quotient is the negative infinity, which is below 1.0, and the result is 9:16, not
  other.
\<close>

theorem negative_zero_height_counterexample:
  "f64_eq (Finite True 0) (Finite False 0) \<and>
   f64_div (Finite False 1920) (Finite True 0) = Inf True \<and>
   getVideoAspectRatio (probe_tools (Finite False 1920) (Finite True 0)) ''/tmp/v'' = Inr ''9:16'' \<and>
   getVideoAspectRatio (probe_tools (Finite False 1920) (Finite True 0)) ''/tmp/v'' \<noteq> Inr ''other''"
  by (simp add: getVideoAspectRatio_def probe_tools_def f64_1_def f64_value_def)

text \<open>
  C9, amended. When the prober ran and the decoded stream list is not empty, the result
  is one of the three classifications, whatever the width and height of the first
  stream are, and never an error. With the height \<open>+0\<close> (the value a JSON \<open>0\<close> decodes
  to), a positive width divides to the positive infinity and a zero width to NaN, and
  both give other. With the height \<open>-0\<close>, a positive width divides to the negative
  infinity, which gives 9:16, and a zero width to NaN, which gives other. A zero width
  over a positive height gives 9:16.
\<close>

theorem getVideoAspectRatio_total:
  assumes "exec_Run T ''ffprobe'' (ffprobe_args p) = Inr buf"
    and "json_Unmarshal T buf = st # rest"
  shows "getVideoAspectRatio T p \<in> {Inr ''9:16'', Inr ''16:9'', Inr ''other''} \<and>
     (Height st = Finite False 0 \<and> Width st = Finite False w \<and> 0 < w \<longrightarrow>
        f64_div (Width st) (Height st) = Inf False \<and> getVideoAspectRatio T p = Inr ''other'') \<and>
     (Height st = Finite False 0 \<and> Width st = Finite sw 0 \<longrightarrow>
        f64_div (Width st) (Height st) = NaN \<and> getVideoAspectRatio T p = Inr ''other'') \<and>
     (Width st = Finite sw 0 \<and> Height st = Finite False h \<and> 0 < h \<longrightarrow>
        getVideoAspectRatio T p = Inr ''9:16'') \<and>
     (Height st = Finite True 0 \<and> Width st = Finite False w \<and> 0 < w \<longrightarrow>
        f64_div (Width st) (Height st) = Inf True \<and> getVideoAspectRatio T p = Inr ''9:16'') \<and>
     (Height st = Finite True 0 \<and> Width st = Finite sw 0 \<longrightarrow>
        f64_div (Width st) (Height st) = NaN \<and> getVideoAspectRatio T p = Inr ''other'')"
proof -
  have res: "getVideoAspectRatio T p =
     (let result = f64_div (Width st) (Height st) in
      if f64_lt result f64_1 then Inr ''9:16''
      else if f64_gt result f64_1 \<and> f64_lt result f64_2 then Inr ''16:9''
      else Inr ''other'')"
    by (rule aspect_ratio_streams [OF assms])
  have total: "getVideoAspectRatio T p \<in> {Inr ''9:16'', Inr ''16:9'', Inr ''other''}"
    by (simp add: res Let_def)
  have inf: "f64_div (Width st) (Height st) = Inf False \<and> getVideoAspectRatio T p = Inr ''other''"
    if "Height st = Finite False 0" "Width st = Finite False w" "0 < w"
    using that by (simp add: res f64_1_def f64_2_def f64_gt_def)
  have nan: "f64_div (Width st) (Height st) = NaN \<and> getVideoAspectRatio T p = Inr ''other''"
    if "Height st = Finite False 0" "Width st = Finite sw 0"
    using that by (simp add: res f64_1_def f64_2_def f64_gt_def)
  have zero: "getVideoAspectRatio T p = Inr ''9:16''"
    if "Width st = Finite sw 0" "Height st = Finite False h" "0 < h"
    using that by (simp add: res f64_1_def f64_value_def)
  have neg_inf: "f64_div (Width st) (Height st) = Inf True \<and> getVideoAspectRatio T p = Inr ''9:16''"
    if "Height st = Finite True 0" "Width st = Finite False w" "0 < w"
    using that by (simp add: res f64_1_def)
  have neg_nan: "f64_div (Width st) (Height st) = NaN \<and> getVideoAspectRatio T p = Inr ''other''"
    if "Height st = Finite True 0" "Width st = Finite sw 0"
    using that by (simp add: res f64_1_def f64_2_def f64_gt_def)
  show ?thesis using total inf nan zero neg_inf neg_nan by blast
qed

theorem getVideoAspectRatio_total_witness:
  "getVideoAspectRatio (probe_tools (Finite False 1920) (Finite False 0)) ''/tmp/v'' = Inr ''other'' \<and>
   f64_div (Finite False 1920) (Finite False 0) = Inf False \<and>
   getVideoAspectRatio (probe_tools (Finite False 0) (Finite False 0)) ''/tmp/v'' = Inr ''other'' \<and>
   f64_div (Finite False 0) (Finite False 0) = NaN \<and>
   getVideoAspectRatio (probe_tools (Finite False 0) (Finite False 1080)) ''/tmp/v'' = Inr ''9:16'' \<and>
   getVideoAspectRatio (probe_tools (Finite False 1920) (Finite True 0)) ''/tmp/v'' = Inr ''9:16'' \<and>
   f64_div (Finite False 1920) (Finite True 0) = Inf True \<and>
   getVideoAspectRatio (probe_tools (Finite False 0) (Finite True 0)) ''/tmp/v'' = Inr ''other'' \<and>
   f64_div (Finite False 0) (Finite True 0) = NaN"
proof -
  have run: "exec_Run (probe_tools a b) ''ffprobe'' (ffprobe_args ''/tmp/v'') = Inr ''{}''" for a b
    by (simp add: probe_tools_def)
  have dec: "json_Unmarshal (probe_tools a b) ''{}'' = [\<lparr>Height = b, Width = a\<rparr>]" for a b
    by (simp add: probe_tools_def)
  show ?thesis
    using getVideoAspectRatio_total
        [OF run [of "Finite False 1920" "Finite False 0"] dec [of "Finite False 1920" "Finite False 0"],
         where w = 1920 and sw = False and h = 0]
      getVideoAspectRatio_total
        [OF run [of "Finite False 0" "Finite False 0"] dec [of "Finite False 0" "Finite False 0"],
         where w = 0 and sw = False and h = 0]
      getVideoAspectRatio_total
        [OF run [of "Finite False 0" "Finite False 1080"] dec [of "Finite False 0" "Finite False 1080"],
         where w = 0 and sw = False and h = 1080]
      getVideoAspectRatio_total
        [OF run [of "Finite False 1920" "Finite True 0"] dec [of "Finite False 1920" "Finite True 0"],
         where w = 1920 and sw = False and h = 0]
      getVideoAspectRatio_total
        [OF run [of "Finite False 0" "Finite True 0"] dec [of "Finite False 0" "Finite True 0"],
         where w = 0 and sw = False and h = 0]
    by simp
qed

section \<open>Properties of the upload handlers\<close>

lemmas status_defs = StatusOK_def StatusBadRequest_def StatusUnauthorized_def
  StatusNotFound_def StatusInternalServerError_def

lemmas respond_defs = respondWithError_def respondWithJSON_def panic_def status_defs

lemmas demo_defs = demo_services_def demo_request_def demo_db_def demo_cfg_def
  demo_form_def demo_part_def

lemma demo_name:
  "EncodeToString (read_into (make_bytes 32) (replicate 32 0xAB)) =
     ''q6urq6urq6urq6urq6urq6urq6urq6urq6urq6urq6s''"
  by code_simp

lemma demo_aspect:
  "getVideoAspectRatio (probe_tools (Finite False 1920) (Finite False 1080)) p = Inr ''16:9''"
  using ratio_1920_1080 by (simp add: getVideoAspectRatio_def probe_tools_def)

lemma demo_fast_start:
  "processVideoForFastStart (probe_tools w h) p = Inr (p @ ''.processing'')"
  by (simp add: processVideoForFastStart_def probe_tools_def)

subsection \<open>Ownership check and file processing\<close>

text \<open>
  C2 does not hold for the thumbnail handler. A thumbnail upload for video 7 by
  user 2, who does not own it: the response is 401, but the multipart form has been
  parsed and the thumbnail field read before the record is looked up.
\<close>

theorem thumbnail_non_owner_counterexample:
  "ValidateJWT (demo_services (demo_form ''thumbnail'' ''image/png'')) ''bob'' ''secret'' = Inr 2 \<and>
   GetVideo (demo_services (demo_form ''thumbnail'' ''image/png'')) demo_db 7 =
     Inr \<lparr>ID = 7, UserID = 1, VideoURL = None, ThumbnailURL = None\<rparr> \<and>
   handlerUploadThumbnail (demo_services (demo_form ''thumbnail'' ''image/png'')) demo_cfg
       demo_db (demo_request ''7'' ''bob'') =
     \<lparr>response = Response 401 (ErrorBody ''Unauthorized''),
      effects = [Call_Println, Call_ParseMultipartForm 10485760,
                 Call_FormFile ''thumbnail'', Call_GetVideo 7],
      db_after = demo_db\<rparr>"
  by (simp add: handlerUploadThumbnail_def demo_defs respond_defs FormFile_def Let_def)

text \<open>
  The same user with a body that does not parse as a multipart form gets 500, not 401.
\<close>

lemma thumbnail_non_owner_bad_form:
  "handlerUploadThumbnail (demo_services (Inl (Error ''no multipart boundary''))) demo_cfg
       demo_db (demo_request ''7'' ''bob'') =
     \<lparr>response = Response 500 (ErrorBody ''Could not parse formdata''),
      effects = [Call_Println, Call_ParseMultipartForm 10485760],
      db_after = demo_db\<rparr>"
  by (simp add: handlerUploadThumbnail_def demo_defs respond_defs Let_def)

text \<open>
  C2, amended. For an authenticated caller who is not the owner of the record: the video
  handler responds 401 and its only call to the outside is the lookup of the record, so
  no file processing has happened; the thumbnail handler parses the multipart form and
  reads the thumbnail field first and, when both succeed, responds 401 right after the
  lookup, before the content type is examined, a name is drawn, a file is created or
  copied, or the record is updated.
\<close>

theorem non_owner_rejected:
  assumes "uuid_Parse S (PathValue r ''videoID'') = Inr videoID"
    and "GetBearerToken S (Header r) = Inr token"
    and "ValidateJWT S token (jwtSecret cfg) = Inr userID"
    and "GetVideo S db videoID = Inr v"
    and "UserID v \<noteq> userID"
  shows "handlerUploadVideo S cfg db r =
           \<lparr>response = Response 401 (ErrorBody ''unauthorized''),
            effects = [Call_GetVideo videoID], db_after = db\<rparr> \<and>
         (ParseMultipartForm S r None (10 * 1024 * 1024) = Inr form \<and>
          form ''thumbnail'' = Some header \<longrightarrow>
            handlerUploadThumbnail S cfg db r =
              \<lparr>response = Response 401 (ErrorBody ''Unauthorized''),
               effects = [Call_Println, Call_ParseMultipartForm (10 * 1024 * 1024),
                          Call_FormFile ''thumbnail'', Call_GetVideo videoID],
               db_after = db\<rparr>)"
  using assms
  by (auto simp: handlerUploadVideo_def handlerUploadThumbnail_def Let_def respond_defs
        FormFile_def)

theorem non_owner_rejected_witness:
  "handlerUploadVideo (demo_services (demo_form ''thumbnail'' ''image/png'')) demo_cfg demo_db
       (demo_request ''7'' ''bob'') =
     \<lparr>response = Response 401 (ErrorBody ''unauthorized''),
      effects = [Call_GetVideo 7], db_after = demo_db\<rparr> \<and>
   handlerUploadThumbnail (demo_services (demo_form ''thumbnail'' ''image/png'')) demo_cfg
       demo_db (demo_request ''7'' ''bob'') =
     \<lparr>response = Response 401 (ErrorBody ''Unauthorized''),
      effects = [Call_Println, Call_ParseMultipartForm 10485760,
                 Call_FormFile ''thumbnail'', Call_GetVideo 7],
      db_after = demo_db\<rparr>"
proof -
  let ?S = "demo_services (demo_form ''thumbnail'' ''image/png'')"
  let ?r = "demo_request ''7'' ''bob''"
  let ?v = "\<lparr>ID = 7, UserID = 1, VideoURL = None, ThumbnailURL = None\<rparr>"
  have h1: "uuid_Parse ?S (PathValue ?r ''videoID'') = Inr 7"
    by (simp add: demo_defs)
  have h2: "GetBearerToken ?S (Header ?r) = Inr ''bob''"
    by (simp add: demo_defs)
  have h3: "ValidateJWT ?S ''bob'' (jwtSecret demo_cfg) = Inr 2"
    by (simp add: demo_defs)
  have h4: "GetVideo ?S demo_db 7 = Inr ?v"
    by (simp add: demo_defs)
  have h5: "UserID ?v \<noteq> 2"
    by simp
  have h6: "ParseMultipartForm ?S ?r None (10 * 1024 * 1024) = Inr [''thumbnail'' \<mapsto> demo_part ''image/png'']"
    by (simp add: demo_defs)
  show ?thesis
    using non_owner_rejected [OF h1 h2 h3 h4 h5,
        where form = "[''thumbnail'' \<mapsto> demo_part ''image/png'']"
          and header = "demo_part ''image/png''"] h6
    by simp
qed

subsection \<open>Order of authentication and lookup\<close>

text \<open>
  C3 does not hold. A video upload for the well-formed but unknown video 9 with
  no token: the response is 401 unauthorized, not 404, and the store is not queried.
\<close>

theorem video_unknown_id_no_token_counterexample:
  "uuid_Parse (demo_services (demo_form ''video'' ''video/mp4''))
       (PathValue (demo_request ''9'' []) ''videoID'') = Inr 9 \<and>
   GetVideo (demo_services (demo_form ''video'' ''video/mp4'')) demo_db 9 = Inl (Error ''no rows'') \<and>
   GetBearerToken (demo_services (demo_form ''video'' ''video/mp4''))
       (Header (demo_request ''9'' [])) = Inl (Error ''no auth header'') \<and>
   handlerUploadVideo (demo_services (demo_form ''video'' ''video/mp4'')) demo_cfg demo_db
       (demo_request ''9'' []) =
     \<lparr>response = Response 401 (ErrorBody ''unauthorized''), effects = [], db_after = demo_db\<rparr> \<and>
   response (handlerUploadVideo (demo_services (demo_form ''video'' ''video/mp4'')) demo_cfg
       demo_db (demo_request ''9'' [])) \<noteq> Response 404 (ErrorBody ''not found'')"
  by (simp add: handlerUploadVideo_def demo_defs respond_defs Let_def)

text \<open>
  C3, amended. In the video upload handler the video ID is parsed first, then the bearer
  token is extracted and validated, and only then the record is looked up. With a
  well-formed video ID, a missing or invalid token gives 401 unauthorized without a
  lookup, whether the ID is known or not; 404 not found is the response when the token
  is valid and the lookup fails.
\<close>

theorem video_auth_before_lookup:
  assumes "uuid_Parse S (PathValue r ''videoID'') = Inr videoID"
  shows "(GetBearerToken S (Header r) = Inl e \<or>
          (GetBearerToken S (Header r) = Inr token \<and>
           ValidateJWT S token (jwtSecret cfg) = Inl e) \<longrightarrow>
            handlerUploadVideo S cfg db r =
              \<lparr>response = Response 401 (ErrorBody ''unauthorized''),
               effects = [], db_after = db\<rparr>) \<and>
         (GetBearerToken S (Header r) = Inr token \<and>
          ValidateJWT S token (jwtSecret cfg) = Inr userID \<and>
          GetVideo S db videoID = Inl e \<longrightarrow>
            handlerUploadVideo S cfg db r =
              \<lparr>response = Response 404 (ErrorBody ''not found''),
               effects = [Call_GetVideo videoID], db_after = db\<rparr>)"
  using assms
  by (auto simp: handlerUploadVideo_def Let_def respond_defs)

theorem video_auth_before_lookup_witness:
  "handlerUploadVideo (demo_services (demo_form ''video'' ''video/mp4'')) demo_cfg demo_db
       (demo_request ''9'' ''mallory'') =
     \<lparr>response = Response 401 (ErrorBody ''unauthorized''), effects = [], db_after = demo_db\<rparr> \<and>
   handlerUploadVideo (demo_services (demo_form ''video'' ''video/mp4'')) demo_cfg demo_db
       (demo_request ''9'' ''alice'') =
     \<lparr>response = Response 404 (ErrorBody ''not found''), effects = [Call_GetVideo 9],
      db_after = demo_db\<rparr>"
proof -
  let ?S = "demo_services (demo_form ''video'' ''video/mp4'')"
  have id: "uuid_Parse ?S (PathValue (demo_request ''9'' t) ''videoID'') = Inr 9" for t
    by (simp add: demo_defs)
  have bad: "GetBearerToken ?S (Header (demo_request ''9'' ''mallory'')) = Inr ''mallory'' \<and>
      ValidateJWT ?S ''mallory'' (jwtSecret demo_cfg) = Inl (Error ''invalid token'')"
    by (simp add: demo_defs)
  have good: "GetBearerToken ?S (Header (demo_request ''9'' ''alice'')) = Inr ''alice'' \<and>
      ValidateJWT ?S ''alice'' (jwtSecret demo_cfg) = Inr 1 \<and>
      GetVideo ?S demo_db 9 = Inl (Error ''no rows'')"
    by (simp add: demo_defs)
  show ?thesis
    using video_auth_before_lookup [OF id, where t1 = "''mallory''" and token = "''mallory''"
        and e = "Error ''invalid token''" and cfg = demo_cfg and db = demo_db and userID = 1]
      video_auth_before_lookup [OF id, where t1 = "''alice''" and token = "''alice''"
        and e = "Error ''no rows''" and cfg = demo_cfg and db = demo_db and userID = 1]
      bad good
    by simp
qed

subsection \<open>Content types\<close>

text \<open>
  C4. A thumbnail upload by the owner whose part declares an empty content type, which
  does not parse as a media type: the thumbnail handler answers 500 and not the bad
  request 400 of the error taxonomy, which is the status it gives to \<open>image/gif\<close> and
  the status the video handler gives to the same unparsable content type.
\<close>

theorem thumbnail_unparsable_mime_status:
  "ParseMediaType (demo_services (demo_form ''thumbnail'' [])) [] = Inl (Error ''mime: no media type'') \<and>
   response (handlerUploadThumbnail (demo_services (demo_form ''thumbnail'' [])) demo_cfg
       demo_db (demo_request ''7'' ''alice'')) =
     Response 500 (ErrorBody ''could not parse media type'') \<and>
   response (handlerUploadThumbnail (demo_services (demo_form ''thumbnail'' ''image/gif'')) demo_cfg
       demo_db (demo_request ''7'' ''alice'')) =
     Response 400 (ErrorBody ''invalid media type'') \<and>
   response (handlerUploadVideo (demo_services (demo_form ''video'' [])) demo_cfg
       demo_db (demo_request ''7'' ''alice'')) =
     Response 400 (ErrorBody ''Unable to parse mimetype'')"
  by (simp add: handlerUploadThumbnail_def handlerUploadVideo_def demo_defs respond_defs
        FormFile_def request_FormFile_def Let_def)

text \<open>
  Whenever the thumbnail handler reaches the content type and it does not parse, the
  status is 500.
\<close>

lemma thumbnail_unparsable_mime:
  assumes "uuid_Parse S (PathValue r ''videoID'') = Inr videoID"
    and "GetBearerToken S (Header r) = Inr token"
    and "ValidateJWT S token (jwtSecret cfg) = Inr userID"
    and "ParseMultipartForm S r None (10 * 1024 * 1024) = Inr form"
    and "form ''thumbnail'' = Some header"
    and "GetVideo S db videoID = Inr v"
    and "UserID v = userID"
    and "ParseMediaType S (Header_Get header ''content-type'') = Inl e"
  shows "response (handlerUploadThumbnail S cfg db r) =
    Response 500 (ErrorBody ''could not parse media type'')"
  using assms
  by (simp add: handlerUploadThumbnail_def Let_def respond_defs FormFile_def)

text \<open>
  C7. A video upload whose part was extracted and whose declared content type does not
  parse to exactly \<open>video/mp4\<close> (another type, or no parse at all): nothing is written
  to the object storage, no temporary file is created, no tool is run, the record is
  not updated and the response is an error with a 4xx status; and when the request has
  passed the checks before the content type (ID, token, record, owner), the status is
  400 and the only calls made are the lookup, the extraction of the part and its
  closing.
\<close>

theorem video_mime_rejected:
  assumes "request_FormFile S r (Some (10 * 2 ^ 30)) ''video'' = Inr header"
    and "ParseMediaType S (Header_Get header ''content-type'') \<noteq> Inr ''video/mp4''"
  shows "(\<forall>params. Call_PutObject params \<notin> set (effects (handlerUploadVideo S cfg db r))) \<and>
     (\<forall>dir pattern. Call_CreateTemp dir pattern \<notin> set (effects (handlerUploadVideo S cfg db r))) \<and>
     (\<forall>name args. Call_Exec name args \<notin> set (effects (handlerUploadVideo S cfg db r))) \<and>
     (\<forall>v. Call_UpdateVideo v \<notin> set (effects (handlerUploadVideo S cfg db r))) \<and>
     (\<forall>v. response (handlerUploadVideo S cfg db r) \<noteq> Response 200 (VideoBody v)) \<and>
     (\<exists>code msg. response (handlerUploadVideo S cfg db r) = Response code (ErrorBody msg) \<and>
        (code = 400 \<or> code = 401 \<or> code = 404)) \<and>
     (uuid_Parse S (PathValue r ''videoID'') = Inr videoID \<and>
      GetBearerToken S (Header r) = Inr token \<and>
      ValidateJWT S token (jwtSecret cfg) = Inr userID \<and>
      GetVideo S db videoID = Inr v \<and> UserID v = userID \<longrightarrow>
      (\<exists>msg. handlerUploadVideo S cfg db r =
         \<lparr>response = Response 400 (ErrorBody msg),
          effects = [Call_GetVideo videoID, Call_FormFile ''video'', Call_Close ''video''],
          db_after = db\<rparr>))"
  using assms
  by (simp add: handlerUploadVideo_def Let_def respond_defs
        split: sum.split option.split prod.split)

theorem video_mime_rejected_witness:
  "handlerUploadVideo (demo_services (demo_form ''video'' ''video/webm'')) demo_cfg demo_db
       (demo_request ''7'' ''alice'') =
     \<lparr>response = Response 400 (ErrorBody ''only video/mp4 mimetype accepted''),
      effects = [Call_GetVideo 7, Call_FormFile ''video'', Call_Close ''video''],
      db_after = demo_db\<rparr> \<and>
   (\<forall>params. Call_PutObject params \<notin> set (effects (handlerUploadVideo
       (demo_services (demo_form ''video'' ''video/webm'')) demo_cfg demo_db
       (demo_request ''7'' ''alice''))))"
proof -
  let ?S = "demo_services (demo_form ''video'' ''video/webm'')"
  let ?r = "demo_request ''7'' ''alice''"
  let ?v = "\<lparr>ID = 7, UserID = 1, VideoURL = None, ThumbnailURL = None\<rparr>"
  have h1: "request_FormFile ?S ?r (Some (10 * 2 ^ 30)) ''video'' = Inr (demo_part ''video/webm'')"
    by (simp add: request_FormFile_def FormFile_def demo_defs)
  have h2: "ParseMediaType ?S (Header_Get (demo_part ''video/webm'') ''content-type'') \<noteq>
      Inr ''video/mp4''"
    by (simp add: demo_defs)
  have h3: "uuid_Parse ?S (PathValue ?r ''videoID'') = Inr 7 \<and>
      GetBearerToken ?S (Header ?r) = Inr ''alice'' \<and>
      ValidateJWT ?S ''alice'' (jwtSecret demo_cfg) = Inr 1 \<and>
      GetVideo ?S demo_db 7 = Inr ?v \<and> UserID ?v = 1"
    by (simp add: demo_defs)
  have "\<exists>msg. handlerUploadVideo ?S demo_cfg demo_db ?r =
         \<lparr>response = Response 400 (ErrorBody msg),
          effects = [Call_GetVideo 7, Call_FormFile ''video'', Call_Close ''video''],
          db_after = demo_db\<rparr>"
    and no_put: "\<forall>params. Call_PutObject params \<notin> set (effects (handlerUploadVideo ?S demo_cfg demo_db ?r))"
    using video_mime_rejected [OF h1 h2, where cfg = demo_cfg and db = demo_db
        and videoID = 7 and token = "''alice''" and userID = 1 and v = ?v] h3
    by blast+
  then obtain msg where out: "handlerUploadVideo ?S demo_cfg demo_db ?r =
         \<lparr>response = Response 400 (ErrorBody msg),
          effects = [Call_GetVideo 7, Call_FormFile ''video'', Call_Close ''video''],
          db_after = demo_db\<rparr>"
    by blast
  have "response (handlerUploadVideo ?S demo_cfg demo_db ?r) =
      Response 400 (ErrorBody ''only video/mp4 mimetype accepted'')"
    by (simp add: handlerUploadVideo_def demo_defs respond_defs
        FormFile_def request_FormFile_def Let_def)
  with out have "msg = ''only video/mp4 mimetype accepted''"
    by simp
  with out no_put show ?thesis
    by simp
qed

subsection \<open>The metadata record on failure\<close>

text \<open>
  C5 does not hold for the error return of the update itself. A video upload by the
  owner in which every step succeeds up to \<^verbatim>\<open>UpdateVideo\<close>, and a store that writes the
  record and then reports an error: the response is 500 "unable to update video
  metadata", and the record's video URL, unset before the request, is set afterwards.
  The handler has nothing that undoes the update.
\<close>

theorem video_update_error_counterexample:
  "response (handlerUploadVideo
       ((demo_services (demo_form ''video'' ''video/mp4''))
          \<lparr>UpdateVideo := (\<lambda>db v. (Some (Error ''commit failed''), (ID v, v) # db))\<rparr>)
       demo_cfg demo_db (demo_request ''7'' ''alice'')) =
     Response 500 (ErrorBody ''unable to update video metadata'') \<and>
   GetVideo (demo_services (demo_form ''video'' ''video/mp4'')) demo_db 7 =
     Inr \<lparr>ID = 7, UserID = 1, VideoURL = None, ThumbnailURL = None\<rparr> \<and>
   GetVideo (demo_services (demo_form ''video'' ''video/mp4''))
       (db_after (handlerUploadVideo
          ((demo_services (demo_form ''video'' ''video/mp4''))
             \<lparr>UpdateVideo := (\<lambda>db v. (Some (Error ''commit failed''), (ID v, v) # db))\<rparr>)
          demo_cfg demo_db (demo_request ''7'' ''alice''))) 7 =
     Inr \<lparr>ID = 7, UserID = 1,
         VideoURL = Some ''https://cdn.example/landscape/q6urq6urq6urq6urq6urq6urq6urq6urq6urq6urq6s.mp4'',
         ThumbnailURL = None\<rparr>"
  by (simp add: handlerUploadVideo_def demo_defs respond_defs FormFile_def request_FormFile_def
        Let_def index_def demo_aspect demo_fast_start demo_name prefix_of_def)

text \<open>
  C5, amended. When a video upload fails at a step before the update of the record, the
  response is the error of that step, \<^verbatim>\<open>UpdateVideo\<close> has not been called and the
  metadata store, so the record's video URL, is as it was before the request. The steps
  are, in order: a bad ID, a missing or invalid token, an unknown record, an ownership
  mismatch, a part that cannot be extracted, a content type that does not parse or is
  not \<open>video/mp4\<close>, the creation, copy or rewind of the temporary file, the probe, the
  remux, the opening of the processed file, the random bytes and the storage write; each
  failure is taken with the steps before it having succeeded. When the update itself
  fails, \<^verbatim>\<open>UpdateVideo\<close> has been called with the new URL, the response is 500 and the
  store is in the state that call left.
\<close>

theorem video_step_failure_no_update:
  fixes S :: "'db services" and db db' :: 'db and cfg :: apiConfig and r :: request
    and videoID userID :: uuid and token mediaType tmpFile aspectRatio processedPath :: string
    and videoMetadata :: video and header :: FileHeader
  defines "H \<equiv> handlerUploadVideo S cfg db r"
  defines "untouched \<equiv> db_after H = db \<and> (\<forall>v. Call_UpdateVideo v \<notin> set (effects H))"
  defines "key \<equiv> prefix_of aspectRatio @ ''/'' @
      EncodeToString (read_into (make_bytes 32) (fst (rand_Read S 32))) @ ''.mp4''"
  defines "params \<equiv> \<lparr>Bucket = s3Bucket cfg, Key = key, Body = processedPath,
      ContentType = ''video/mp4''\<rparr>"
  defines "updated \<equiv> videoMetadata\<lparr>VideoURL := Some (s3CfDistribution cfg @ ''/'' @ key)\<rparr>"
  defines "s1 \<equiv> uuid_Parse S (PathValue r ''videoID'') = Inr videoID"
  defines "s2 \<equiv> s1 \<and> GetBearerToken S (Header r) = Inr token"
  defines "s3 \<equiv> s2 \<and> ValidateJWT S token (jwtSecret cfg) = Inr userID"
  defines "s4 \<equiv> s3 \<and> GetVideo S db videoID = Inr videoMetadata"
  defines "s5 \<equiv> s4 \<and> UserID videoMetadata = userID"
  defines "s6 \<equiv> s5 \<and> request_FormFile S r (Some (10 * 2 ^ 30)) ''video'' = Inr header"
  defines "s7 \<equiv> s6 \<and> ParseMediaType S (Header_Get header ''content-type'') = Inr mediaType"
  defines "s8 \<equiv> s7 \<and> mediaType = ''video/mp4''"
  defines "s9 \<equiv> s8 \<and> CreateTemp S [] ''video-upload.mp4'' = Inr tmpFile"
  defines "s10 \<equiv> s9 \<and> io_Copy S tmpFile ''video'' = None"
  defines "s11 \<equiv> s10 \<and> Seek S tmpFile = None"
  defines "s12 \<equiv> s11 \<and> getVideoAspectRatio (Tools S) tmpFile = Inr aspectRatio"
  defines "s13 \<equiv> s12 \<and> processVideoForFastStart (Tools S) tmpFile = Inr processedPath"
  defines "s14 \<equiv> s13 \<and> os_Open S processedPath = None"
  defines "s15 \<equiv> s14 \<and> snd (rand_Read S 32) = None"
  defines "s16 \<equiv> s15 \<and> PutObject S params = None"
  shows "(uuid_Parse S (PathValue r ''videoID'') = Inl e \<longrightarrow>
        response H = Response 400 (ErrorBody ''missing video id parameter'') \<and> untouched) \<and>
     (s1 \<and> GetBearerToken S (Header r) = Inl e \<longrightarrow>
        response H = Response 401 (ErrorBody ''unauthorized'') \<and> untouched) \<and>
     (s2 \<and> ValidateJWT S token (jwtSecret cfg) = Inl e \<longrightarrow>
        response H = Response 401 (ErrorBody ''unauthorized'') \<and> untouched) \<and>
     (s3 \<and> GetVideo S db videoID = Inl e \<longrightarrow>
        response H = Response 404 (ErrorBody ''not found'') \<and> untouched) \<and>
     (s4 \<and> UserID videoMetadata \<noteq> userID \<longrightarrow>
        response H = Response 401 (ErrorBody ''unauthorized'') \<and> untouched) \<and>
     (s5 \<and> request_FormFile S r (Some (10 * 2 ^ 30)) ''video'' = Inl e \<longrightarrow>
        response H = Response 500 (ErrorBody ''Could not get video file'') \<and> untouched) \<and>
     (s6 \<and> ParseMediaType S (Header_Get header ''content-type'') = Inl e \<longrightarrow>
        response H = Response 400 (ErrorBody ''Unable to parse mimetype'') \<and> untouched) \<and>
     (s7 \<and> mediaType \<noteq> ''video/mp4'' \<longrightarrow>
        response H = Response 400 (ErrorBody ''only video/mp4 mimetype accepted'') \<and> untouched) \<and>
     (s8 \<and> CreateTemp S [] ''video-upload.mp4'' = Inl e \<longrightarrow>
        response H = Response 500 (ErrorBody ''unable to create temp file'') \<and> untouched) \<and>
     (s9 \<and> io_Copy S tmpFile ''video'' = Some e \<longrightarrow>
        response H = Response 500 (ErrorBody ''unable to copy file'') \<and> untouched) \<and>
     (s10 \<and> Seek S tmpFile = Some e \<longrightarrow>
        response H = Response 500 (ErrorBody ''unable to find file start'') \<and> untouched) \<and>
     (s11 \<and> getVideoAspectRatio (Tools S) tmpFile = Inl e \<longrightarrow>
        response H = Response 500 (ErrorBody ''cannot get video aspect ratio'') \<and> untouched) \<and>
     (s12 \<and> processVideoForFastStart (Tools S) tmpFile = Inl e \<longrightarrow>
        response H = Response 500 (ErrorBody ''unable to process video'') \<and> untouched) \<and>
     (s13 \<and> os_Open S processedPath = Some e \<longrightarrow>
        response H = Response 500 (ErrorBody ''error reading processed file'') \<and> untouched) \<and>
     (s14 \<and> snd (rand_Read S 32) = Some e \<longrightarrow>
        response H = Response 500 (ErrorBody ''cannot create random buf'') \<and> untouched) \<and>
     (s15 \<and> PutObject S params = Some e \<longrightarrow>
        response H = Response 500 (ErrorBody ''unable to write to s3'') \<and> untouched) \<and>
     (s16 \<and> UpdateVideo S db updated = (Some e, db') \<longrightarrow>
        response H = Response 500 (ErrorBody ''unable to update video metadata'') \<and>
        db_after H = db' \<and> Call_UpdateVideo updated \<in> set (effects H))"
proof -
  note steps = s1_def s2_def s3_def s4_def s5_def s6_def s7_def s8_def s9_def s10_def s11_def s12_def s13_def s14_def s15_def s16_def
  note defs = H_def untouched_def key_def params_def updated_def handlerUploadVideo_def Let_def
    respond_defs index_def case_prod_beta
  have f1: "response H = Response 400 (ErrorBody ''missing video id parameter'') \<and> untouched"
    if "uuid_Parse S (PathValue r ''videoID'') = Inl e"
    using that unfolding steps by (simp add: defs)
  have f2: "response H = Response 401 (ErrorBody ''unauthorized'') \<and> untouched"
    if "s1 \<and> GetBearerToken S (Header r) = Inl e"
    using that unfolding steps by (simp add: defs)
  have f3: "response H = Response 401 (ErrorBody ''unauthorized'') \<and> untouched"
    if "s2 \<and> ValidateJWT S token (jwtSecret cfg) = Inl e"
    using that unfolding steps by (simp add: defs)
  have f4: "response H = Response 404 (ErrorBody ''not found'') \<and> untouched"
    if "s3 \<and> GetVideo S db videoID = Inl e"
    using that unfolding steps by (simp add: defs)
  have f5: "response H = Response 401 (ErrorBody ''unauthorized'') \<and> untouched"
    if "s4 \<and> UserID videoMetadata \<noteq> userID"
    using that unfolding steps by (simp add: defs)
  have f6: "response H = Response 500 (ErrorBody ''Could not get video file'') \<and> untouched"
    if "s5 \<and> request_FormFile S r (Some (10 * 2 ^ 30)) ''video'' = Inl e"
    using that unfolding steps by (simp add: defs)
  have f7: "response H = Response 400 (ErrorBody ''Unable to parse mimetype'') \<and> untouched"
    if "s6 \<and> ParseMediaType S (Header_Get header ''content-type'') = Inl e"
    using that unfolding steps by (simp add: defs)
  have f8: "response H = Response 400 (ErrorBody ''only video/mp4 mimetype accepted'') \<and> untouched"
    if "s7 \<and> mediaType \<noteq> ''video/mp4''"
    using that unfolding steps by (simp add: defs)
  have f9: "response H = Response 500 (ErrorBody ''unable to create temp file'') \<and> untouched"
    if "s8 \<and> CreateTemp S [] ''video-upload.mp4'' = Inl e"
    using that unfolding steps by (simp add: defs)
  have f10: "response H = Response 500 (ErrorBody ''unable to copy file'') \<and> untouched"
    if "s9 \<and> io_Copy S tmpFile ''video'' = Some e"
    using that unfolding steps by (simp add: defs)
  have f11: "response H = Response 500 (ErrorBody ''unable to find file start'') \<and> untouched"
    if "s10 \<and> Seek S tmpFile = Some e"
    using that unfolding steps by (simp add: defs)
  have f12: "response H = Response 500 (ErrorBody ''cannot get video aspect ratio'') \<and> untouched"
    if "s11 \<and> getVideoAspectRatio (Tools S) tmpFile = Inl e"
    using that unfolding steps by (simp add: defs)
  have f13: "response H = Response 500 (ErrorBody ''unable to process video'') \<and> untouched"
    if "s12 \<and> processVideoForFastStart (Tools S) tmpFile = Inl e"
    using that unfolding steps by (simp add: defs)
  have f14: "response H = Response 500 (ErrorBody ''error reading processed file'') \<and> untouched"
    if "s13 \<and> os_Open S processedPath = Some e"
    using that unfolding steps by (simp add: defs)
  have f15: "response H = Response 500 (ErrorBody ''cannot create random buf'') \<and> untouched"
    if "s14 \<and> snd (rand_Read S 32) = Some e"
    using that unfolding steps by (simp add: defs)
  have f16: "response H = Response 500 (ErrorBody ''unable to write to s3'') \<and> untouched"
    if "s15 \<and> PutObject S params = Some e"
    using that unfolding steps by (simp add: defs)
  have f17: "response H = Response 500 (ErrorBody ''unable to update video metadata'') \<and>
        db_after H = db' \<and> Call_UpdateVideo updated \<in> set (effects H)"
    if "s16 \<and> UpdateVideo S db updated = (Some e, db')"
    using that unfolding steps by (simp add: defs)
  show ?thesis
    using f1 f2 f3 f4 f5 f6 f7 f8 f9 f10 f11 f12 f13 f14 f15 f16 f17 by blast
qed

theorem video_step_failure_no_update_witness:
  "response (handlerUploadVideo
       (demo_services (demo_form ''video'' ''video/mp4''))
       demo_cfg demo_db (demo_request ''x'' ''alice'')) =
     Response 400 (ErrorBody ''missing video id parameter'') \<and>
   db_after (handlerUploadVideo
       (demo_services (demo_form ''video'' ''video/mp4''))
       demo_cfg demo_db (demo_request ''x'' ''alice'')) = demo_db \<and>
   response (handlerUploadVideo
       (demo_services (demo_form ''video'' ''video/mp4''))
       demo_cfg demo_db (demo_request ''7'' [])) =
     Response 401 (ErrorBody ''unauthorized'') \<and>
   db_after (handlerUploadVideo
       (demo_services (demo_form ''video'' ''video/mp4''))
       demo_cfg demo_db (demo_request ''7'' [])) = demo_db \<and>
   response (handlerUploadVideo
       (demo_services (demo_form ''video'' ''video/mp4''))
       demo_cfg demo_db (demo_request ''7'' ''mallory'')) =
     Response 401 (ErrorBody ''unauthorized'') \<and>
   db_after (handlerUploadVideo
       (demo_services (demo_form ''video'' ''video/mp4''))
       demo_cfg demo_db (demo_request ''7'' ''mallory'')) = demo_db \<and>
   response (handlerUploadVideo
       (demo_services (demo_form ''video'' ''video/mp4''))
       demo_cfg demo_db (demo_request ''9'' ''alice'')) =
     Response 404 (ErrorBody ''not found'') \<and>
   db_after (handlerUploadVideo
       (demo_services (demo_form ''video'' ''video/mp4''))
       demo_cfg demo_db (demo_request ''9'' ''alice'')) = demo_db \<and>
   response (handlerUploadVideo
       (demo_services (demo_form ''video'' ''video/mp4''))
       demo_cfg demo_db (demo_request ''7'' ''bob'')) =
     Response 401 (ErrorBody ''unauthorized'') \<and>
   db_after (handlerUploadVideo
       (demo_services (demo_form ''video'' ''video/mp4''))
       demo_cfg demo_db (demo_request ''7'' ''bob'')) = demo_db \<and>
   response (handlerUploadVideo
       (demo_services (Inl (Error ''failed'')))
       demo_cfg demo_db (demo_request ''7'' ''alice'')) =
     Response 500 (ErrorBody ''Could not get video file'') \<and>
   db_after (handlerUploadVideo
       (demo_services (Inl (Error ''failed'')))
       demo_cfg demo_db (demo_request ''7'' ''alice'')) = demo_db \<and>
   response (handlerUploadVideo
       (demo_services (demo_form ''video'' []))
       demo_cfg demo_db (demo_request ''7'' ''alice'')) =
     Response 400 (ErrorBody ''Unable to parse mimetype'') \<and>
   db_after (handlerUploadVideo
       (demo_services (demo_form ''video'' []))
       demo_cfg demo_db (demo_request ''7'' ''alice'')) = demo_db \<and>
   response (handlerUploadVideo
       (demo_services (demo_form ''video'' ''video/webm''))
       demo_cfg demo_db (demo_request ''7'' ''alice'')) =
     Response 400 (ErrorBody ''only video/mp4 mimetype accepted'') \<and>
   db_after (handlerUploadVideo
       (demo_services (demo_form ''video'' ''video/webm''))
       demo_cfg demo_db (demo_request ''7'' ''alice'')) = demo_db \<and>
   response (handlerUploadVideo
       ((demo_services (demo_form ''video'' ''video/mp4''))\<lparr>CreateTemp := (\<lambda>dir pattern. Inl (Error ''failed''))\<rparr>)
       demo_cfg demo_db (demo_request ''7'' ''alice'')) =
     Response 500 (ErrorBody ''unable to create temp file'') \<and>
   db_after (handlerUploadVideo
       ((demo_services (demo_form ''video'' ''video/mp4''))\<lparr>CreateTemp := (\<lambda>dir pattern. Inl (Error ''failed''))\<rparr>)
       demo_cfg demo_db (demo_request ''7'' ''alice'')) = demo_db \<and>
   response (handlerUploadVideo
       ((demo_services (demo_form ''video'' ''video/mp4''))\<lparr>io_Copy := (\<lambda>dst src. Some (Error ''failed''))\<rparr>)
       demo_cfg demo_db (demo_request ''7'' ''alice'')) =
     Response 500 (ErrorBody ''unable to copy file'') \<and>
   db_after (handlerUploadVideo
       ((demo_services (demo_form ''video'' ''video/mp4''))\<lparr>io_Copy := (\<lambda>dst src. Some (Error ''failed''))\<rparr>)
       demo_cfg demo_db (demo_request ''7'' ''alice'')) = demo_db \<and>
   response (handlerUploadVideo
       ((demo_services (demo_form ''video'' ''video/mp4''))\<lparr>Seek := (\<lambda>file. Some (Error ''failed''))\<rparr>)
       demo_cfg demo_db (demo_request ''7'' ''alice'')) =
     Response 500 (ErrorBody ''unable to find file start'') \<and>
   db_after (handlerUploadVideo
       ((demo_services (demo_form ''video'' ''video/mp4''))\<lparr>Seek := (\<lambda>file. Some (Error ''failed''))\<rparr>)
       demo_cfg demo_db (demo_request ''7'' ''alice'')) = demo_db \<and>
   response (handlerUploadVideo
       ((demo_services (demo_form ''video'' ''video/mp4''))\<lparr>Tools := \<lparr>exec_Run = (\<lambda>name args. Inl (Error ''failed'')), json_Unmarshal = (\<lambda>buf. [])\<rparr>\<rparr>)
       demo_cfg demo_db (demo_request ''7'' ''alice'')) =
     Response 500 (ErrorBody ''cannot get video aspect ratio'') \<and>
   db_after (handlerUploadVideo
       ((demo_services (demo_form ''video'' ''video/mp4''))\<lparr>Tools := \<lparr>exec_Run = (\<lambda>name args. Inl (Error ''failed'')), json_Unmarshal = (\<lambda>buf. [])\<rparr>\<rparr>)
       demo_cfg demo_db (demo_request ''7'' ''alice'')) = demo_db \<and>
   response (handlerUploadVideo
       ((demo_services (demo_form ''video'' ''video/mp4''))\<lparr>Tools := \<lparr>exec_Run = (\<lambda>name args. if name = ''ffmpeg'' then Inl (Error ''failed'') else Inr ''{}''), json_Unmarshal = (\<lambda>buf. [\<lparr>Height = Finite False 1080, Width = Finite False 1920\<rparr>])\<rparr>\<rparr>)
       demo_cfg demo_db (demo_request ''7'' ''alice'')) =
     Response 500 (ErrorBody ''unable to process video'') \<and>
   db_after (handlerUploadVideo
       ((demo_services (demo_form ''video'' ''video/mp4''))\<lparr>Tools := \<lparr>exec_Run = (\<lambda>name args. if name = ''ffmpeg'' then Inl (Error ''failed'') else Inr ''{}''), json_Unmarshal = (\<lambda>buf. [\<lparr>Height = Finite False 1080, Width = Finite False 1920\<rparr>])\<rparr>\<rparr>)
       demo_cfg demo_db (demo_request ''7'' ''alice'')) = demo_db \<and>
   response (handlerUploadVideo
       ((demo_services (demo_form ''video'' ''video/mp4''))\<lparr>os_Open := (\<lambda>path. Some (Error ''failed''))\<rparr>)
       demo_cfg demo_db (demo_request ''7'' ''alice'')) =
     Response 500 (ErrorBody ''error reading processed file'') \<and>
   db_after (handlerUploadVideo
       ((demo_services (demo_form ''video'' ''video/mp4''))\<lparr>os_Open := (\<lambda>path. Some (Error ''failed''))\<rparr>)
       demo_cfg demo_db (demo_request ''7'' ''alice'')) = demo_db \<and>
   response (handlerUploadVideo
       ((demo_services (demo_form ''video'' ''video/mp4''))\<lparr>rand_Read := (\<lambda>n. ([], Some (Error ''failed'')))\<rparr>)
       demo_cfg demo_db (demo_request ''7'' ''alice'')) =
     Response 500 (ErrorBody ''cannot create random buf'') \<and>
   db_after (handlerUploadVideo
       ((demo_services (demo_form ''video'' ''video/mp4''))\<lparr>rand_Read := (\<lambda>n. ([], Some (Error ''failed'')))\<rparr>)
       demo_cfg demo_db (demo_request ''7'' ''alice'')) = demo_db \<and>
   response (handlerUploadVideo
       ((demo_services (demo_form ''video'' ''video/mp4''))\<lparr>PutObject := (\<lambda>params. Some (Error ''failed''))\<rparr>)
       demo_cfg demo_db (demo_request ''7'' ''alice'')) =
     Response 500 (ErrorBody ''unable to write to s3'') \<and>
   db_after (handlerUploadVideo
       ((demo_services (demo_form ''video'' ''video/mp4''))\<lparr>PutObject := (\<lambda>params. Some (Error ''failed''))\<rparr>)
       demo_cfg demo_db (demo_request ''7'' ''alice'')) = demo_db \<and>
   response (handlerUploadVideo
       ((demo_services (demo_form ''video'' ''video/mp4''))\<lparr>UpdateVideo := (\<lambda>db v. (Some (Error ''failed''), db))\<rparr>)
       demo_cfg demo_db (demo_request ''7'' ''alice'')) =
     Response 500 (ErrorBody ''unable to update video metadata'') \<and>
   db_after (handlerUploadVideo
       ((demo_services (demo_form ''video'' ''video/mp4''))\<lparr>UpdateVideo := (\<lambda>db v. (Some (Error ''failed''), db))\<rparr>)
       demo_cfg demo_db (demo_request ''7'' ''alice'')) = demo_db"
proof -
  have probe_fails: "getVideoAspectRatio
      \<lparr>exec_Run = (\<lambda>name args. Inl (Error ''failed'')), json_Unmarshal = (\<lambda>buf. [])\<rparr> p = Inl (Error ''failed'')" for p
    by (simp add: getVideoAspectRatio_def)
  have probe_runs: "getVideoAspectRatio
      \<lparr>exec_Run = (\<lambda>name args. if name = ''ffmpeg'' then Inl (Error ''failed'') else Inr ''{}''), json_Unmarshal = (\<lambda>buf. [\<lparr>Height = Finite False 1080, Width = Finite False 1920\<rparr>])\<rparr> p = Inr ''16:9''" for p
    using ratio_1920_1080 by (simp add: getVideoAspectRatio_def)
  have remux_fails: "processVideoForFastStart
      \<lparr>exec_Run = (\<lambda>name args. if name = ''ffmpeg'' then Inl (Error ''failed'') else Inr ''{}''), json_Unmarshal = (\<lambda>buf. [\<lparr>Height = Finite False 1080, Width = Finite False 1920\<rparr>])\<rparr> p = Inl (Error ''failed'')" for p
    by (simp add: processVideoForFastStart_def)
  note demo_facts = request_FormFile_def FormFile_def demo_aspect demo_fast_start
    probe_fails probe_runs remux_fails
  have bad_id: "response (handlerUploadVideo
         (demo_services (demo_form ''video'' ''video/mp4''))
         demo_cfg demo_db (demo_request ''x'' ''alice'')) =
       Response 400 (ErrorBody ''missing video id parameter'') \<and>
     db_after (handlerUploadVideo
         (demo_services (demo_form ''video'' ''video/mp4''))
         demo_cfg demo_db (demo_request ''x'' ''alice'')) = demo_db"
    using video_step_failure_no_update
        [where cfg = demo_cfg and db = demo_db and db' = demo_db and S = "demo_services (demo_form ''video'' ''video/mp4'')" and r = "demo_request ''x'' ''alice''" and videoID = "7" and token = "''alice''" and userID = "1" and videoMetadata = "\<lparr>ID = 7, UserID = 1, VideoURL = None, ThumbnailURL = None\<rparr>" and header = "demo_part ''video/mp4''" and mediaType = "''video/mp4''" and tmpFile = "''/tmp/video-upload.mp4123''" and aspectRatio = "''16:9''" and processedPath = "''/tmp/video-upload.mp4123.processing''" and e = "Error ''invalid UUID''"]
    by (simp add: demo_defs demo_facts)
  have no_token: "response (handlerUploadVideo
         (demo_services (demo_form ''video'' ''video/mp4''))
         demo_cfg demo_db (demo_request ''7'' [])) =
       Response 401 (ErrorBody ''unauthorized'') \<and>
     db_after (handlerUploadVideo
         (demo_services (demo_form ''video'' ''video/mp4''))
         demo_cfg demo_db (demo_request ''7'' [])) = demo_db"
    using video_step_failure_no_update
        [where cfg = demo_cfg and db = demo_db and db' = demo_db and S = "demo_services (demo_form ''video'' ''video/mp4'')" and r = "demo_request ''7'' []" and videoID = "7" and token = "''alice''" and userID = "1" and videoMetadata = "\<lparr>ID = 7, UserID = 1, VideoURL = None, ThumbnailURL = None\<rparr>" and header = "demo_part ''video/mp4''" and mediaType = "''video/mp4''" and tmpFile = "''/tmp/video-upload.mp4123''" and aspectRatio = "''16:9''" and processedPath = "''/tmp/video-upload.mp4123.processing''" and e = "Error ''no auth header''"]
    by (simp add: demo_defs demo_facts)
  have bad_token: "response (handlerUploadVideo
         (demo_services (demo_form ''video'' ''video/mp4''))
         demo_cfg demo_db (demo_request ''7'' ''mallory'')) =
       Response 401 (ErrorBody ''unauthorized'') \<and>
     db_after (handlerUploadVideo
         (demo_services (demo_form ''video'' ''video/mp4''))
         demo_cfg demo_db (demo_request ''7'' ''mallory'')) = demo_db"
    using video_step_failure_no_update
        [where cfg = demo_cfg and db = demo_db and db' = demo_db and S = "demo_services (demo_form ''video'' ''video/mp4'')" and r = "demo_request ''7'' ''mallory''" and videoID = "7" and token = "''mallory''" and userID = "1" and videoMetadata = "\<lparr>ID = 7, UserID = 1, VideoURL = None, ThumbnailURL = None\<rparr>" and header = "demo_part ''video/mp4''" and mediaType = "''video/mp4''" and tmpFile = "''/tmp/video-upload.mp4123''" and aspectRatio = "''16:9''" and processedPath = "''/tmp/video-upload.mp4123.processing''" and e = "Error ''invalid token''"]
    by (simp add: demo_defs demo_facts)
  have unknown: "response (handlerUploadVideo
         (demo_services (demo_form ''video'' ''video/mp4''))
         demo_cfg demo_db (demo_request ''9'' ''alice'')) =
       Response 404 (ErrorBody ''not found'') \<and>
     db_after (handlerUploadVideo
         (demo_services (demo_form ''video'' ''video/mp4''))
         demo_cfg demo_db (demo_request ''9'' ''alice'')) = demo_db"
    using video_step_failure_no_update
        [where cfg = demo_cfg and db = demo_db and db' = demo_db and S = "demo_services (demo_form ''video'' ''video/mp4'')" and r = "demo_request ''9'' ''alice''" and videoID = "9" and token = "''alice''" and userID = "1" and videoMetadata = "\<lparr>ID = 7, UserID = 1, VideoURL = None, ThumbnailURL = None\<rparr>" and header = "demo_part ''video/mp4''" and mediaType = "''video/mp4''" and tmpFile = "''/tmp/video-upload.mp4123''" and aspectRatio = "''16:9''" and processedPath = "''/tmp/video-upload.mp4123.processing''" and e = "Error ''no rows''"]
    by (simp add: demo_defs demo_facts)
  have not_owner: "response (handlerUploadVideo
         (demo_services (demo_form ''video'' ''video/mp4''))
         demo_cfg demo_db (demo_request ''7'' ''bob'')) =
       Response 401 (ErrorBody ''unauthorized'') \<and>
     db_after (handlerUploadVideo
         (demo_services (demo_form ''video'' ''video/mp4''))
         demo_cfg demo_db (demo_request ''7'' ''bob'')) = demo_db"
    using video_step_failure_no_update
        [where cfg = demo_cfg and db = demo_db and db' = demo_db and S = "demo_services (demo_form ''video'' ''video/mp4'')" and r = "demo_request ''7'' ''bob''" and videoID = "7" and token = "''bob''" and userID = "2" and videoMetadata = "\<lparr>ID = 7, UserID = 1, VideoURL = None, ThumbnailURL = None\<rparr>" and header = "demo_part ''video/mp4''" and mediaType = "''video/mp4''" and tmpFile = "''/tmp/video-upload.mp4123''" and aspectRatio = "''16:9''" and processedPath = "''/tmp/video-upload.mp4123.processing''" and e = "Error ''failed''"]
    by (simp add: demo_defs demo_facts)
  have no_form: "response (handlerUploadVideo
         (demo_services (Inl (Error ''failed'')))
         demo_cfg demo_db (demo_request ''7'' ''alice'')) =
       Response 500 (ErrorBody ''Could not get video file'') \<and>
     db_after (handlerUploadVideo
         (demo_services (Inl (Error ''failed'')))
         demo_cfg demo_db (demo_request ''7'' ''alice'')) = demo_db"
    using video_step_failure_no_update
        [where cfg = demo_cfg and db = demo_db and db' = demo_db and S = "demo_services (Inl (Error ''failed''))" and r = "demo_request ''7'' ''alice''" and videoID = "7" and token = "''alice''" and userID = "1" and videoMetadata = "\<lparr>ID = 7, UserID = 1, VideoURL = None, ThumbnailURL = None\<rparr>" and header = "demo_part ''video/mp4''" and mediaType = "''video/mp4''" and tmpFile = "''/tmp/video-upload.mp4123''" and aspectRatio = "''16:9''" and processedPath = "''/tmp/video-upload.mp4123.processing''" and e = "Error ''failed''"]
    by (simp add: demo_defs demo_facts)
  have no_type: "response (handlerUploadVideo
         (demo_services (demo_form ''video'' []))
         demo_cfg demo_db (demo_request ''7'' ''alice'')) =
       Response 400 (ErrorBody ''Unable to parse mimetype'') \<and>
     db_after (handlerUploadVideo
         (demo_services (demo_form ''video'' []))
         demo_cfg demo_db (demo_request ''7'' ''alice'')) = demo_db"
    using video_step_failure_no_update
        [where cfg = demo_cfg and db = demo_db and db' = demo_db and S = "demo_services (demo_form ''video'' [])" and r = "demo_request ''7'' ''alice''" and videoID = "7" and token = "''alice''" and userID = "1" and videoMetadata = "\<lparr>ID = 7, UserID = 1, VideoURL = None, ThumbnailURL = None\<rparr>" and header = "demo_part []" and mediaType = "''video/mp4''" and tmpFile = "''/tmp/video-upload.mp4123''" and aspectRatio = "''16:9''" and processedPath = "''/tmp/video-upload.mp4123.processing''" and e = "Error ''mime: no media type''"]
    by (simp add: demo_defs demo_facts)
  have wrong_type: "response (handlerUploadVideo
         (demo_services (demo_form ''video'' ''video/webm''))
         demo_cfg demo_db (demo_request ''7'' ''alice'')) =
       Response 400 (ErrorBody ''only video/mp4 mimetype accepted'') \<and>
     db_after (handlerUploadVideo
         (demo_services (demo_form ''video'' ''video/webm''))
         demo_cfg demo_db (demo_request ''7'' ''alice'')) = demo_db"
    using video_step_failure_no_update
        [where cfg = demo_cfg and db = demo_db and db' = demo_db and S = "demo_services (demo_form ''video'' ''video/webm'')" and r = "demo_request ''7'' ''alice''" and videoID = "7" and token = "''alice''" and userID = "1" and videoMetadata = "\<lparr>ID = 7, UserID = 1, VideoURL = None, ThumbnailURL = None\<rparr>" and header = "demo_part ''video/webm''" and mediaType = "''video/webm''" and tmpFile = "''/tmp/video-upload.mp4123''" and aspectRatio = "''16:9''" and processedPath = "''/tmp/video-upload.mp4123.processing''" and e = "Error ''failed''"]
    by (simp add: demo_defs demo_facts)
  have no_temp: "response (handlerUploadVideo
         ((demo_services (demo_form ''video'' ''video/mp4''))\<lparr>CreateTemp := (\<lambda>dir pattern. Inl (Error ''failed''))\<rparr>)
         demo_cfg demo_db (demo_request ''7'' ''alice'')) =
       Response 500 (ErrorBody ''unable to create temp file'') \<and>
     db_after (handlerUploadVideo
         ((demo_services (demo_form ''video'' ''video/mp4''))\<lparr>CreateTemp := (\<lambda>dir pattern. Inl (Error ''failed''))\<rparr>)
         demo_cfg demo_db (demo_request ''7'' ''alice'')) = demo_db"
    using video_step_failure_no_update
        [where cfg = demo_cfg and db = demo_db and db' = demo_db and S = "(demo_services (demo_form ''video'' ''video/mp4''))\<lparr>CreateTemp := (\<lambda>dir pattern. Inl (Error ''failed''))\<rparr>" and r = "demo_request ''7'' ''alice''" and videoID = "7" and token = "''alice''" and userID = "1" and videoMetadata = "\<lparr>ID = 7, UserID = 1, VideoURL = None, ThumbnailURL = None\<rparr>" and header = "demo_part ''video/mp4''" and mediaType = "''video/mp4''" and tmpFile = "''/tmp/video-upload.mp4123''" and aspectRatio = "''16:9''" and processedPath = "''/tmp/video-upload.mp4123.processing''" and e = "Error ''failed''"]
    by (simp add: demo_defs demo_facts)
  have no_copy: "response (handlerUploadVideo
         ((demo_services (demo_form ''video'' ''video/mp4''))\<lparr>io_Copy := (\<lambda>dst src. Some (Error ''failed''))\<rparr>)
         demo_cfg demo_db (demo_request ''7'' ''alice'')) =
       Response 500 (ErrorBody ''unable to copy file'') \<and>
     db_after (handlerUploadVideo
         ((demo_services (demo_form ''video'' ''video/mp4''))\<lparr>io_Copy := (\<lambda>dst src. Some (Error ''failed''))\<rparr>)
         demo_cfg demo_db (demo_request ''7'' ''alice'')) = demo_db"
    using video_step_failure_no_update
        [where cfg = demo_cfg and db = demo_db and db' = demo_db and S = "(demo_services (demo_form ''video'' ''video/mp4''))\<lparr>io_Copy := (\<lambda>dst src. Some (Error ''failed''))\<rparr>" and r = "demo_request ''7'' ''alice''" and videoID = "7" and token = "''alice''" and userID = "1" and videoMetadata = "\<lparr>ID = 7, UserID = 1, VideoURL = None, ThumbnailURL = None\<rparr>" and header = "demo_part ''video/mp4''" and mediaType = "''video/mp4''" and tmpFile = "''/tmp/video-upload.mp4123''" and aspectRatio = "''16:9''" and processedPath = "''/tmp/video-upload.mp4123.processing''" and e = "Error ''failed''"]
    by (simp add: demo_defs demo_facts)
  have no_seek: "response (handlerUploadVideo
         ((demo_services (demo_form ''video'' ''video/mp4''))\<lparr>Seek := (\<lambda>file. Some (Error ''failed''))\<rparr>)
         demo_cfg demo_db (demo_request ''7'' ''alice'')) =
       Response 500 (ErrorBody ''unable to find file start'') \<and>
     db_after (handlerUploadVideo
         ((demo_services (demo_form ''video'' ''video/mp4''))\<lparr>Seek := (\<lambda>file. Some (Error ''failed''))\<rparr>)
         demo_cfg demo_db (demo_request ''7'' ''alice'')) = demo_db"
    using video_step_failure_no_update
        [where cfg = demo_cfg and db = demo_db and db' = demo_db and S = "(demo_services (demo_form ''video'' ''video/mp4''))\<lparr>Seek := (\<lambda>file. Some (Error ''failed''))\<rparr>" and r = "demo_request ''7'' ''alice''" and videoID = "7" and token = "''alice''" and userID = "1" and videoMetadata = "\<lparr>ID = 7, UserID = 1, VideoURL = None, ThumbnailURL = None\<rparr>" and header = "demo_part ''video/mp4''" and mediaType = "''video/mp4''" and tmpFile = "''/tmp/video-upload.mp4123''" and aspectRatio = "''16:9''" and processedPath = "''/tmp/video-upload.mp4123.processing''" and e = "Error ''failed''"]
    by (simp add: demo_defs demo_facts)
  have no_probe: "response (handlerUploadVideo
         ((demo_services (demo_form ''video'' ''video/mp4''))\<lparr>Tools := \<lparr>exec_Run = (\<lambda>name args. Inl (Error ''failed'')), json_Unmarshal = (\<lambda>buf. [])\<rparr>\<rparr>)
         demo_cfg demo_db (demo_request ''7'' ''alice'')) =
       Response 500 (ErrorBody ''cannot get video aspect ratio'') \<and>
     db_after (handlerUploadVideo
         ((demo_services (demo_form ''video'' ''video/mp4''))\<lparr>Tools := \<lparr>exec_Run = (\<lambda>name args. Inl (Error ''failed'')), json_Unmarshal = (\<lambda>buf. [])\<rparr>\<rparr>)
         demo_cfg demo_db (demo_request ''7'' ''alice'')) = demo_db"
    using video_step_failure_no_update
        [where cfg = demo_cfg and db = demo_db and db' = demo_db and S = "(demo_services (demo_form ''video'' ''video/mp4''))\<lparr>Tools := \<lparr>exec_Run = (\<lambda>name args. Inl (Error ''failed'')), json_Unmarshal = (\<lambda>buf. [])\<rparr>\<rparr>" and r = "demo_request ''7'' ''alice''" and videoID = "7" and token = "''alice''" and userID = "1" and videoMetadata = "\<lparr>ID = 7, UserID = 1, VideoURL = None, ThumbnailURL = None\<rparr>" and header = "demo_part ''video/mp4''" and mediaType = "''video/mp4''" and tmpFile = "''/tmp/video-upload.mp4123''" and aspectRatio = "''16:9''" and processedPath = "''/tmp/video-upload.mp4123.processing''" and e = "Error ''failed''"]
    by (simp add: demo_defs demo_facts)
  have no_remux: "response (handlerUploadVideo
         ((demo_services (demo_form ''video'' ''video/mp4''))\<lparr>Tools := \<lparr>exec_Run = (\<lambda>name args. if name = ''ffmpeg'' then Inl (Error ''failed'') else Inr ''{}''), json_Unmarshal = (\<lambda>buf. [\<lparr>Height = Finite False 1080, Width = Finite False 1920\<rparr>])\<rparr>\<rparr>)
         demo_cfg demo_db (demo_request ''7'' ''alice'')) =
       Response 500 (ErrorBody ''unable to process video'') \<and>
     db_after (handlerUploadVideo
         ((demo_services (demo_form ''video'' ''video/mp4''))\<lparr>Tools := \<lparr>exec_Run = (\<lambda>name args. if name = ''ffmpeg'' then Inl (Error ''failed'') else Inr ''{}''), json_Unmarshal = (\<lambda>buf. [\<lparr>Height = Finite False 1080, Width = Finite False 1920\<rparr>])\<rparr>\<rparr>)
         demo_cfg demo_db (demo_request ''7'' ''alice'')) = demo_db"
    using video_step_failure_no_update
        [where cfg = demo_cfg and db = demo_db and db' = demo_db and S = "(demo_services (demo_form ''video'' ''video/mp4''))\<lparr>Tools := \<lparr>exec_Run = (\<lambda>name args. if name = ''ffmpeg'' then Inl (Error ''failed'') else Inr ''{}''), json_Unmarshal = (\<lambda>buf. [\<lparr>Height = Finite False 1080, Width = Finite False 1920\<rparr>])\<rparr>\<rparr>" and r = "demo_request ''7'' ''alice''" and videoID = "7" and token = "''alice''" and userID = "1" and videoMetadata = "\<lparr>ID = 7, UserID = 1, VideoURL = None, ThumbnailURL = None\<rparr>" and header = "demo_part ''video/mp4''" and mediaType = "''video/mp4''" and tmpFile = "''/tmp/video-upload.mp4123''" and aspectRatio = "''16:9''" and processedPath = "''/tmp/video-upload.mp4123.processing''" and e = "Error ''failed''"]
    by (simp add: demo_defs demo_facts)
  have no_open: "response (handlerUploadVideo
         ((demo_services (demo_form ''video'' ''video/mp4''))\<lparr>os_Open := (\<lambda>path. Some (Error ''failed''))\<rparr>)
         demo_cfg demo_db (demo_request ''7'' ''alice'')) =
       Response 500 (ErrorBody ''error reading processed file'') \<and>
     db_after (handlerUploadVideo
         ((demo_services (demo_form ''video'' ''video/mp4''))\<lparr>os_Open := (\<lambda>path. Some (Error ''failed''))\<rparr>)
         demo_cfg demo_db (demo_request ''7'' ''alice'')) = demo_db"
    using video_step_failure_no_update
        [where cfg = demo_cfg and db = demo_db and db' = demo_db and S = "(demo_services (demo_form ''video'' ''video/mp4''))\<lparr>os_Open := (\<lambda>path. Some (Error ''failed''))\<rparr>" and r = "demo_request ''7'' ''alice''" and videoID = "7" and token = "''alice''" and userID = "1" and videoMetadata = "\<lparr>ID = 7, UserID = 1, VideoURL = None, ThumbnailURL = None\<rparr>" and header = "demo_part ''video/mp4''" and mediaType = "''video/mp4''" and tmpFile = "''/tmp/video-upload.mp4123''" and aspectRatio = "''16:9''" and processedPath = "''/tmp/video-upload.mp4123.processing''" and e = "Error ''failed''"]
    by (simp add: demo_defs demo_facts)
  have no_random: "response (handlerUploadVideo
         ((demo_services (demo_form ''video'' ''video/mp4''))\<lparr>rand_Read := (\<lambda>n. ([], Some (Error ''failed'')))\<rparr>)
         demo_cfg demo_db (demo_request ''7'' ''alice'')) =
       Response 500 (ErrorBody ''cannot create random buf'') \<and>
     db_after (handlerUploadVideo
         ((demo_services (demo_form ''video'' ''video/mp4''))\<lparr>rand_Read := (\<lambda>n. ([], Some (Error ''failed'')))\<rparr>)
         demo_cfg demo_db (demo_request ''7'' ''alice'')) = demo_db"
    using video_step_failure_no_update
        [where cfg = demo_cfg and db = demo_db and db' = demo_db and S = "(demo_services (demo_form ''video'' ''video/mp4''))\<lparr>rand_Read := (\<lambda>n. ([], Some (Error ''failed'')))\<rparr>" and r = "demo_request ''7'' ''alice''" and videoID = "7" and token = "''alice''" and userID = "1" and videoMetadata = "\<lparr>ID = 7, UserID = 1, VideoURL = None, ThumbnailURL = None\<rparr>" and header = "demo_part ''video/mp4''" and mediaType = "''video/mp4''" and tmpFile = "''/tmp/video-upload.mp4123''" and aspectRatio = "''16:9''" and processedPath = "''/tmp/video-upload.mp4123.processing''" and e = "Error ''failed''"]
    by (simp add: demo_defs demo_facts)
  have no_put: "response (handlerUploadVideo
         ((demo_services (demo_form ''video'' ''video/mp4''))\<lparr>PutObject := (\<lambda>params. Some (Error ''failed''))\<rparr>)
         demo_cfg demo_db (demo_request ''7'' ''alice'')) =
       Response 500 (ErrorBody ''unable to write to s3'') \<and>
     db_after (handlerUploadVideo
         ((demo_services (demo_form ''video'' ''video/mp4''))\<lparr>PutObject := (\<lambda>params. Some (Error ''failed''))\<rparr>)
         demo_cfg demo_db (demo_request ''7'' ''alice'')) = demo_db"
    using video_step_failure_no_update
        [where cfg = demo_cfg and db = demo_db and db' = demo_db and S = "(demo_services (demo_form ''video'' ''video/mp4''))\<lparr>PutObject := (\<lambda>params. Some (Error ''failed''))\<rparr>" and r = "demo_request ''7'' ''alice''" and videoID = "7" and token = "''alice''" and userID = "1" and videoMetadata = "\<lparr>ID = 7, UserID = 1, VideoURL = None, ThumbnailURL = None\<rparr>" and header = "demo_part ''video/mp4''" and mediaType = "''video/mp4''" and tmpFile = "''/tmp/video-upload.mp4123''" and aspectRatio = "''16:9''" and processedPath = "''/tmp/video-upload.mp4123.processing''" and e = "Error ''failed''"]
    by (simp add: demo_defs demo_facts)
  have no_update: "response (handlerUploadVideo
         ((demo_services (demo_form ''video'' ''video/mp4''))\<lparr>UpdateVideo := (\<lambda>db v. (Some (Error ''failed''), db))\<rparr>)
         demo_cfg demo_db (demo_request ''7'' ''alice'')) =
       Response 500 (ErrorBody ''unable to update video metadata'') \<and>
     db_after (handlerUploadVideo
         ((demo_services (demo_form ''video'' ''video/mp4''))\<lparr>UpdateVideo := (\<lambda>db v. (Some (Error ''failed''), db))\<rparr>)
         demo_cfg demo_db (demo_request ''7'' ''alice'')) = demo_db"
    using video_step_failure_no_update
        [where cfg = demo_cfg and db = demo_db and db' = demo_db and S = "(demo_services (demo_form ''video'' ''video/mp4''))\<lparr>UpdateVideo := (\<lambda>db v. (Some (Error ''failed''), db))\<rparr>" and r = "demo_request ''7'' ''alice''" and videoID = "7" and token = "''alice''" and userID = "1" and videoMetadata = "\<lparr>ID = 7, UserID = 1, VideoURL = None, ThumbnailURL = None\<rparr>" and header = "demo_part ''video/mp4''" and mediaType = "''video/mp4''" and tmpFile = "''/tmp/video-upload.mp4123''" and aspectRatio = "''16:9''" and processedPath = "''/tmp/video-upload.mp4123.processing''" and e = "Error ''failed''"]
    by (simp add: demo_defs demo_facts)
  show ?thesis
    using bad_id no_token bad_token unknown not_owner no_form no_type wrong_type no_temp no_copy no_seek no_probe no_remux no_open no_random no_put no_update
    by simp
qed

subsection \<open>Random names, keys and paths\<close>

lemma encodeURL_length: "length encodeURL = 64"
  by (simp add: encodeURL_def)

lemma encode_at_in: "encode_at i \<in> set encodeURL"
proof -
  have "i AND 0x3F \<le> 0x3F"
    by (rule word_and_le1)
  then have "unat (i AND 0x3F) \<le> unat (0x3F :: 32 word)"
    by (simp add: word_le_nat_alt)
  then have "unat (i AND 0x3F) < length encodeURL"
    by (simp add: encodeURL_length)
  then show ?thesis
    unfolding encode_at_def by (rule nth_mem)
qed

lemma EncodeToString_set: "set (EncodeToString src) \<subseteq> set encodeURL"
  by (induction src rule: EncodeToString.induct) (simp_all add: Let_def encode_at_in)

lemma EncodeToString_length: "length (EncodeToString src) = (4 * length src + 2) div 3"
  by (induction src rule: EncodeToString.induct) (simp_all add: Let_def)

lemma read_into_length: "length (read_into buf delivered) = length buf"
  by (simp add: read_into_def)

lemma randBuf_length: "length (read_into (make_bytes 32) delivered) = 32"
  by (simp add: read_into_length make_bytes_def)

lemma encodeURL_excludes:
  "CHR ''/'' \<notin> set encodeURL" "CHR ''+'' \<notin> set encodeURL"
  "CHR ''='' \<notin> set encodeURL" "CHR ''.'' \<notin> set encodeURL"
  by (simp_all add: encodeURL_def)

lemma strings_Split_nonempty: "strings_Split s sep \<noteq> []"
  by (induction s) (auto split: list.splits)

lemma strings_Split_single: "sep \<notin> set s \<Longrightarrow> strings_Split s sep = [s]"
  by (induction s) auto

lemma strings_Split_append:
  "strings_Split (xs @ sep # ys) sep = strings_Split xs sep @ strings_Split ys sep"
  by (induction xs) (auto split: list.splits simp: strings_Split_nonempty)

lemma strings_Join_snoc_nonempty: "y \<noteq> [] \<Longrightarrow> strings_Join (xs @ [y]) sep \<noteq> []"
  by (induction xs sep rule: strings_Join.induct) auto

lemma is_rooted_append: "dir \<noteq> [] \<Longrightarrow> is_rooted (dir @ rest) = is_rooted dir"
  by (cases dir) (simp_all add: is_rooted_def)

lemma Join_root_file:
  assumes "CHR ''/'' \<notin> set filename" and "filename \<noteq> []"
    and "filename \<noteq> ''.''" and "filename \<noteq> ''..''"
  shows "Join [dir, filename] =
    (if is_rooted dir then ''/'' else []) @
      strings_Join (clean_elems dir @ [filename]) ''/''"
proof (cases "dir = []")
  case True
  have nr: "\<not> is_rooted filename"
    using assms by (cases filename) (auto simp: is_rooted_def)
  have "clean_elems filename = [filename]"
    using assms by (simp add: clean_elems_def strings_Split_single clean_step_def)
  with True nr assms show ?thesis
    by (simp add: Join_def Clean_def Let_def clean_elems_def is_rooted_def clean_step_def)
next
  case False
  let ?p = "dir @ ''/'' @ filename"
  have rooted: "is_rooted ?p = is_rooted dir"
    using False by (rule is_rooted_append)
  have "strings_Split ?p CHR ''/'' = strings_Split dir CHR ''/'' @ [filename]"
    using assms(1) by (simp add: strings_Split_append strings_Split_single)
  then have elems: "clean_elems ?p = clean_elems dir @ [filename]"
    using assms rooted by (simp add: clean_elems_def clean_step_def)
  have "strings_Join (clean_elems dir @ [filename]) ''/'' \<noteq> []"
    using assms(2) by (rule strings_Join_snoc_nonempty)
  with False elems rooted show ?thesis
    by (simp add: Join_def Clean_def Let_def)
qed

lemma name_no_separator:
  "CHR ''/'' \<notin> set (EncodeToString src)" "CHR ''.'' \<notin> set (EncodeToString src)"
  "CHR ''+'' \<notin> set (EncodeToString src)" "CHR ''='' \<notin> set (EncodeToString src)"
  using EncodeToString_set [of src] encodeURL_excludes by blast+

lemma prefix_of_no_separator:
  "CHR ''/'' \<notin> set (prefix_of a)" "CHR ''.'' \<notin> set (prefix_of a)"
  by (simp_all add: prefix_of_def)

subsection \<open>The successful runs\<close>

lemma aspect_ratio_values:
  assumes "getVideoAspectRatio T p = Inr a"
  shows "a = ''9:16'' \<or> a = ''16:9'' \<or> a = ''other''"
  using assms
  by (auto simp: getVideoAspectRatio_def Let_def split: sum.splits if_splits)

lemma fast_start_path:
  assumes "processVideoForFastStart T p = Inr q"
  shows "q = p @ ''.processing''"
  using assms
  by (auto simp: processVideoForFastStart_def Let_def split: sum.splits)

lemma video_success:
  assumes ok: "response (handlerUploadVideo S cfg db r) = Response 200 body"
  shows "\<exists>videoID videoMetadata header tmpFile aspectRatio key v' db'.
    uuid_Parse S (PathValue r ''videoID'') = Inr videoID \<and>
    GetVideo S db videoID = Inr videoMetadata \<and>
    request_FormFile S r (Some (10 * 2 ^ 30)) ''video'' = Inr header \<and>
    ParseMediaType S (Header_Get header ''content-type'') = Inr ''video/mp4'' \<and>
    CreateTemp S [] ''video-upload.mp4'' = Inr tmpFile \<and>
    getVideoAspectRatio (Tools S) tmpFile = Inr aspectRatio \<and>
    key = prefix_of aspectRatio @ ''/'' @
          EncodeToString (read_into (make_bytes 32) (fst (rand_Read S 32))) @ ''.'' @ ''mp4'' \<and>
    PutObject S \<lparr>Bucket = s3Bucket cfg, Key = key, Body = tmpFile @ ''.processing'',
                  ContentType = ''video/mp4''\<rparr> = None \<and>
    v' = videoMetadata\<lparr>VideoURL := Some (s3CfDistribution cfg @ ''/'' @ key)\<rparr> \<and>
    UpdateVideo S db v' = (None, db') \<and>
    handlerUploadVideo S cfg db r =
      \<lparr>response = Response 200 (VideoBody v'),
       effects =
        [Call_GetVideo videoID, Call_FormFile ''video'',
         Call_CreateTemp [] ''video-upload.mp4'', Call_Copy tmpFile ''video'',
         Call_Seek tmpFile, Call_Exec ''ffprobe'' (ffprobe_args tmpFile),
         Call_Exec ''ffmpeg'' (ffmpeg_args tmpFile (tmpFile @ ''.processing'')),
         Call_Open (tmpFile @ ''.processing''), Call_RandRead 32,
         Call_PutObject \<lparr>Bucket = s3Bucket cfg, Key = key, Body = tmpFile @ ''.processing'',
                  ContentType = ''video/mp4''\<rparr>,
         Call_UpdateVideo v',
         Call_Close tmpFile, Call_Remove tmpFile, Call_Close ''video''],
       db_after = db'\<rparr>"
proof -
  note defs = handlerUploadVideo_def Let_def respond_defs index_def
  obtain videoID where 1: "uuid_Parse S (PathValue r ''videoID'') = Inr videoID"
    using ok by (cases "uuid_Parse S (PathValue r ''videoID'')") (simp_all add: defs)
  obtain token where 2: "GetBearerToken S (Header r) = Inr token"
    using ok 1 by (cases "GetBearerToken S (Header r)") (simp_all add: defs)
  obtain userID where 3: "ValidateJWT S token (jwtSecret cfg) = Inr userID"
    using ok 1 2 by (cases "ValidateJWT S token (jwtSecret cfg)") (simp_all add: defs)
  obtain videoMetadata where 4: "GetVideo S db videoID = Inr videoMetadata"
    using ok 1 2 3 by (cases "GetVideo S db videoID") (simp_all add: defs)
  have 5: "UserID videoMetadata = userID"
    using ok 1 2 3 4 by (cases "UserID videoMetadata = userID") (simp_all add: defs)
  obtain header where 6: "request_FormFile S r (Some (10 * 2 ^ 30)) ''video'' = Inr header"
    using ok 1 2 3 4 5
    by (cases "request_FormFile S r (Some (10 * 2 ^ 30)) ''video''") (simp_all add: defs)
  obtain mediaType where 7: "ParseMediaType S (Header_Get header ''content-type'') = Inr mediaType"
    using ok 1 2 3 4 5 6
    by (cases "ParseMediaType S (Header_Get header ''content-type'')") (simp_all add: defs)
  have 8: "mediaType = ''video/mp4''"
    using ok 1 2 3 4 5 6 7 by (cases "mediaType = ''video/mp4''") (simp_all add: defs)
  obtain tmpFile where 9: "CreateTemp S [] ''video-upload.mp4'' = Inr tmpFile"
    using ok 1 2 3 4 5 6 7 8
    by (cases "CreateTemp S [] ''video-upload.mp4''") (simp_all add: defs)
  have 10: "io_Copy S tmpFile ''video'' = None"
    using ok 1 2 3 4 5 6 7 8 9
    by (cases "io_Copy S tmpFile ''video''") (simp_all add: defs)
  have 11: "Seek S tmpFile = None"
    using ok 1 2 3 4 5 6 7 8 9 10
    by (cases "Seek S tmpFile") (simp_all add: defs)
  obtain aspectRatio where 12: "getVideoAspectRatio (Tools S) tmpFile = Inr aspectRatio"
    using ok 1 2 3 4 5 6 7 8 9 10 11
    by (cases "getVideoAspectRatio (Tools S) tmpFile") (simp_all add: defs)
  obtain processedPath where 13: "processVideoForFastStart (Tools S) tmpFile = Inr processedPath"
    using ok 1 2 3 4 5 6 7 8 9 10 11 12
    by (cases "processVideoForFastStart (Tools S) tmpFile") (simp_all add: defs)
  have 14: "processedPath = tmpFile @ ''.processing''"
    using 13 by (rule fast_start_path)
  have 15: "os_Open S (tmpFile @ ''.processing'') = None"
    using ok 1 2 3 4 5 6 7 8 9 10 11 12 13 14
    by (cases "os_Open S (tmpFile @ ''.processing'')") (simp_all add: defs)
  obtain delivered err where 16: "rand_Read S 32 = (delivered, err)"
    by (cases "rand_Read S 32")
  have 17: "err = None"
    using ok 1 2 3 4 5 6 7 8 9 10 11 12 13 14 15 16
    by (cases err) (simp_all add: defs)
  let ?key = "prefix_of aspectRatio @ ''/'' @
          EncodeToString (read_into (make_bytes 32) delivered) @ ''.'' @ ''mp4''"
  let ?params = "\<lparr>Bucket = s3Bucket cfg, Key = ?key, Body = tmpFile @ ''.processing'',
                  ContentType = ''video/mp4''\<rparr>"
  have 18: "PutObject S ?params = None"
    using ok 1 2 3 4 5 6 7 8 9 10 11 12 13 14 15 16 17
    by (cases "PutObject S ?params") (simp_all add: defs)
  let ?v = "videoMetadata\<lparr>VideoURL := Some (s3CfDistribution cfg @ ''/'' @ ?key)\<rparr>"
  obtain failed db' where upd: "UpdateVideo S db ?v = (failed, db')"
    by (cases "UpdateVideo S db ?v")
  have "failed = None"
    using ok 1 2 3 4 5 6 7 8 9 10 11 12 13 14 15 16 17 18 upd
    by (cases failed) (simp_all add: defs)
  with upd have 19: "UpdateVideo S db ?v = (None, db')"
    by simp
  have out: "handlerUploadVideo S cfg db r =
      \<lparr>response = Response 200 (VideoBody ?v),
       effects =
        [Call_GetVideo videoID, Call_FormFile ''video'',
         Call_CreateTemp [] ''video-upload.mp4'', Call_Copy tmpFile ''video'',
         Call_Seek tmpFile, Call_Exec ''ffprobe'' (ffprobe_args tmpFile),
         Call_Exec ''ffmpeg'' (ffmpeg_args tmpFile (tmpFile @ ''.processing'')),
         Call_Open (tmpFile @ ''.processing''), Call_RandRead 32,
         Call_PutObject ?params,
         Call_UpdateVideo ?v,
         Call_Close tmpFile, Call_Remove tmpFile, Call_Close ''video''],
       db_after = db'\<rparr>"
    using 1 2 3 4 5 6 7 8 9 10 11 12 13 14 15 16 17 18 19
    by (simp add: defs)
  show ?thesis
    using 1 4 6 7 8 9 12 16 18 19 out by auto
qed


lemma thumbnail_success:
  assumes ok: "response (handlerUploadThumbnail S cfg db r) = Response 200 body"
  shows "\<exists>videoID video (header :: FileHeader) mediaType extension filename v' db'.
    uuid_Parse S (PathValue r ''videoID'') = Inr videoID \<and>
    GetVideo S db videoID = Inr video \<and>
    ParseMediaType S (Header_Get header ''content-type'') = Inr mediaType \<and>
    (mediaType = ''image/jpeg'' \<and> extension = ''jpeg'' \<or>
     mediaType = ''image/png'' \<and> extension = ''png'') \<and>
    filename = EncodeToString (read_into (make_bytes 32) (fst (rand_Read S 32))) @ ''.'' @ extension \<and>
    v' = video\<lparr>ThumbnailURL := Some (''http://localhost:'' @ port cfg @ ''/assets/'' @ filename)\<rparr> \<and>
    UpdateVideo S db v' = (None, db') \<and>
    handlerUploadThumbnail S cfg db r =
      \<lparr>response = Response 200 (VideoBody v'),
       effects =
        [Call_Println, Call_ParseMultipartForm (10 * 1024 * 1024),
         Call_FormFile ''thumbnail'', Call_GetVideo videoID, Call_RandRead 32,
         Call_Create (Join [assetsRoot cfg, filename]),
         Call_Copy (Join [assetsRoot cfg, filename]) ''thumbnail'',
         Call_UpdateVideo v'],
       db_after = db'\<rparr>"
proof -
  note defs = handlerUploadThumbnail_def Let_def respond_defs index_def
  obtain videoID where 1: "uuid_Parse S (PathValue r ''videoID'') = Inr videoID"
    using ok by (cases "uuid_Parse S (PathValue r ''videoID'')") (simp_all add: defs)
  obtain token where 2: "GetBearerToken S (Header r) = Inr token"
    using ok 1 by (cases "GetBearerToken S (Header r)") (simp_all add: defs)
  obtain userID where 3: "ValidateJWT S token (jwtSecret cfg) = Inr userID"
    using ok 1 2 by (cases "ValidateJWT S token (jwtSecret cfg)") (simp_all add: defs)
  obtain form where 4: "ParseMultipartForm S r None (10 * 1024 * 1024) = Inr form"
    using ok 1 2 3
    by (cases "ParseMultipartForm S r None (10 * 1024 * 1024)") (simp_all add: defs)
  obtain header where 5: "FormFile form ''thumbnail'' = Inr header"
    using ok 1 2 3 4 by (cases "FormFile form ''thumbnail''") (simp_all add: defs)
  obtain video where 6: "GetVideo S db videoID = Inr video"
    using ok 1 2 3 4 5 by (cases "GetVideo S db videoID") (simp_all add: defs)
  have 7: "UserID video = userID"
    using ok 1 2 3 4 5 6 by (cases "UserID video = userID") (simp_all add: defs)
  obtain mediaType where 8: "ParseMediaType S (Header_Get header ''content-type'') = Inr mediaType"
    using ok 1 2 3 4 5 6 7
    by (cases "ParseMediaType S (Header_Get header ''content-type'')") (simp_all add: defs)
  have 9: "mediaType = ''image/jpeg'' \<or> mediaType = ''image/png''"
    using ok 1 2 3 4 5 6 7 8
    by (cases "mediaType = ''image/jpeg'' \<or> mediaType = ''image/png''") (simp_all add: defs)
  obtain extension where 10: "index (strings_Split mediaType CHR ''/'') 1 = Some extension"
    and 11: "mediaType = ''image/jpeg'' \<and> extension = ''jpeg'' \<or>
             mediaType = ''image/png'' \<and> extension = ''png''"
    using 9 by (auto simp: index_def)
  obtain delivered err where 12: "rand_Read S 32 = (delivered, err)"
    by (cases "rand_Read S 32")
  have 13: "err = None"
    using ok 1 2 3 4 5 6 7 8 9 10 12
    by (cases err) (auto simp: handlerUploadThumbnail_def Let_def respond_defs)
  let ?filename = "EncodeToString (read_into (make_bytes 32) delivered) @ ''.'' @ extension"
  let ?path = "Join [assetsRoot cfg, ?filename]"
  have 14: "os_Create S ?path = None"
    using ok 1 2 3 4 5 6 7 8 9 10 12 13
    by (cases "os_Create S ?path") (auto simp: handlerUploadThumbnail_def Let_def respond_defs)
  have 15: "io_Copy S ?path ''thumbnail'' = None"
    using ok 1 2 3 4 5 6 7 8 9 10 12 13 14
    by (cases "io_Copy S ?path ''thumbnail''")
      (auto simp: handlerUploadThumbnail_def Let_def respond_defs)
  let ?v = "video\<lparr>ThumbnailURL := Some (''http://localhost:'' @ port cfg @ ''/assets/'' @ ?filename)\<rparr>"
  obtain failed db' where upd: "UpdateVideo S db ?v = (failed, db')"
    by (cases "UpdateVideo S db ?v")
  have "failed = None"
    using ok 1 2 3 4 5 6 7 8 9 10 12 13 14 15 upd
    by (cases failed) (auto simp: handlerUploadThumbnail_def Let_def respond_defs)
  with upd have 16: "UpdateVideo S db ?v = (None, db')"
    by simp
  have out: "handlerUploadThumbnail S cfg db r =
      \<lparr>response = Response 200 (VideoBody ?v),
       effects =
        [Call_Println, Call_ParseMultipartForm (10 * 1024 * 1024),
         Call_FormFile ''thumbnail'', Call_GetVideo videoID, Call_RandRead 32,
         Call_Create ?path, Call_Copy ?path ''thumbnail'', Call_UpdateVideo ?v],
       db_after = db'\<rparr>"
    using 1 2 3 4 5 6 7 8 9 10 12 13 14 15 16
    by (auto simp: handlerUploadThumbnail_def Let_def respond_defs)
  show ?thesis
    apply (rule exI [of _ videoID])
    apply (rule exI [of _ video])
    apply (rule exI [of _ header])
    apply (rule exI [of _ mediaType])
    apply (rule exI [of _ extension])
    apply (rule exI [of _ "?filename"])
    apply (rule exI [of _ "?v"])
    apply (rule exI [of _ db'])
    using 1 6 8 11 12 16 out by simp
qed

lemma prefix_of_values:
  assumes "getVideoAspectRatio T p = Inr a"
  shows "a = ''16:9'' \<and> prefix_of a = ''landscape'' \<or>
         a = ''9:16'' \<and> prefix_of a = ''portrait'' \<or>
         a = ''other'' \<and> prefix_of a = ''other''"
  using aspect_ratio_values [OF assms] by (auto simp: prefix_of_def)

lemma demo_video_upload:
  "handlerUploadVideo (demo_services (demo_form ''video'' ''video/mp4'')) demo_cfg demo_db
       (demo_request ''7'' ''alice'') =
     \<lparr>response = Response 200 (VideoBody
        \<lparr>ID = 7, UserID = 1,
         VideoURL = Some ''https://cdn.example/landscape/q6urq6urq6urq6urq6urq6urq6urq6urq6urq6urq6s.mp4'',
         ThumbnailURL = None\<rparr>),
      effects =
        [Call_GetVideo 7, Call_FormFile ''video'', Call_CreateTemp [] ''video-upload.mp4'',
         Call_Copy ''/tmp/video-upload.mp4123'' ''video'',
         Call_Seek ''/tmp/video-upload.mp4123'',
         Call_Exec ''ffprobe'' (ffprobe_args ''/tmp/video-upload.mp4123''),
         Call_Exec ''ffmpeg''
           (ffmpeg_args ''/tmp/video-upload.mp4123'' ''/tmp/video-upload.mp4123.processing''),
         Call_Open ''/tmp/video-upload.mp4123.processing'', Call_RandRead 32,
         Call_PutObject \<lparr>Bucket = ''bucket'',
           Key = ''landscape/q6urq6urq6urq6urq6urq6urq6urq6urq6urq6urq6s.mp4'',
           Body = ''/tmp/video-upload.mp4123.processing'', ContentType = ''video/mp4''\<rparr>,
         Call_UpdateVideo \<lparr>ID = 7, UserID = 1,
           VideoURL = Some ''https://cdn.example/landscape/q6urq6urq6urq6urq6urq6urq6urq6urq6urq6urq6s.mp4'',
           ThumbnailURL = None\<rparr>,
         Call_Close ''/tmp/video-upload.mp4123'', Call_Remove ''/tmp/video-upload.mp4123'',
         Call_Close ''video''],
      db_after =
        [(7, \<lparr>ID = 7, UserID = 1,
           VideoURL = Some ''https://cdn.example/landscape/q6urq6urq6urq6urq6urq6urq6urq6urq6urq6urq6s.mp4'',
           ThumbnailURL = None\<rparr>),
         (7, \<lparr>ID = 7, UserID = 1, VideoURL = None, ThumbnailURL = None\<rparr>)]\<rparr>"
  by (simp add: handlerUploadVideo_def demo_defs respond_defs FormFile_def request_FormFile_def
        Let_def index_def demo_aspect demo_fast_start demo_name prefix_of_def)

lemma demo_thumbnail_upload:
  "handlerUploadThumbnail (demo_services (demo_form ''thumbnail'' ''image/png'')) demo_cfg demo_db
       (demo_request ''7'' ''alice'') =
     \<lparr>response = Response 200 (VideoBody
        \<lparr>ID = 7, UserID = 1, VideoURL = None,
         ThumbnailURL = Some ''http://localhost:8091/assets/q6urq6urq6urq6urq6urq6urq6urq6urq6urq6urq6s.png''\<rparr>),
      effects =
        [Call_Println, Call_ParseMultipartForm 10485760, Call_FormFile ''thumbnail'',
         Call_GetVideo 7, Call_RandRead 32,
         Call_Create ''assets/q6urq6urq6urq6urq6urq6urq6urq6urq6urq6urq6s.png'',
         Call_Copy ''assets/q6urq6urq6urq6urq6urq6urq6urq6urq6urq6urq6s.png'' ''thumbnail'',
         Call_UpdateVideo \<lparr>ID = 7, UserID = 1, VideoURL = None,
           ThumbnailURL = Some ''http://localhost:8091/assets/q6urq6urq6urq6urq6urq6urq6urq6urq6urq6urq6s.png''\<rparr>],
      db_after =
        [(7, \<lparr>ID = 7, UserID = 1, VideoURL = None,
           ThumbnailURL = Some ''http://localhost:8091/assets/q6urq6urq6urq6urq6urq6urq6urq6urq6urq6urq6s.png''\<rparr>),
         (7, \<lparr>ID = 7, UserID = 1, VideoURL = None, ThumbnailURL = None\<rparr>)]\<rparr>"
  by (simp add: handlerUploadThumbnail_def demo_defs respond_defs FormFile_def
        Let_def index_def demo_name Join_def Clean_def clean_elems_def clean_step_def
        is_rooted_def)

subsection \<open>The video URL\<close>

text \<open>
  C6. When a video upload ends in the success response, the record that is passed to
  \<^verbatim>\<open>UpdateVideo\<close> and returned to the client is the record that was looked up with its video
  URL set to \<open>base/prefix/name.ext\<close>: \<open>base\<close> is the configured distribution,
  \<open>prefix\<close> is landscape, portrait or other for the classification 16:9, 9:16 or other of
  the temporary file, \<open>name\<close> is the unpadded base64url encoding of the 32-byte random
  buffer, and \<open>ext\<close> is the part after the slash of the declared type \<open>video/mp4\<close>,
  that is \<open>mp4\<close>. The store afterwards is the one \<^verbatim>\<open>UpdateVideo\<close> returned.
\<close>

theorem video_url_on_success:
  assumes "response (handlerUploadVideo S cfg db r) = Response 200 body"
  shows "\<exists>videoID videoMetadata header tmpFile aspectRatio name ext url db'.
     uuid_Parse S (PathValue r ''videoID'') = Inr videoID \<and>
     GetVideo S db videoID = Inr videoMetadata \<and>
     request_FormFile S r (Some (10 * 2 ^ 30)) ''video'' = Inr header \<and>
     ParseMediaType S (Header_Get header ''content-type'') = Inr ''video/mp4'' \<and>
     index (strings_Split ''video/mp4'' CHR ''/'') 1 = Some ext \<and> ext = ''mp4'' \<and>
     CreateTemp S [] ''video-upload.mp4'' = Inr tmpFile \<and>
     getVideoAspectRatio (Tools S) tmpFile = Inr aspectRatio \<and>
     (aspectRatio = ''16:9'' \<and> prefix_of aspectRatio = ''landscape'' \<or>
      aspectRatio = ''9:16'' \<and> prefix_of aspectRatio = ''portrait'' \<or>
      aspectRatio = ''other'' \<and> prefix_of aspectRatio = ''other'') \<and>
     name = EncodeToString (read_into (make_bytes 32) (fst (rand_Read S 32))) \<and>
     length (read_into (make_bytes 32) (fst (rand_Read S 32))) = 32 \<and>
     url = s3CfDistribution cfg @ ''/'' @ prefix_of aspectRatio @ ''/'' @ name @ ''.'' @ ext \<and>
     body = VideoBody (videoMetadata\<lparr>VideoURL := Some url\<rparr>) \<and>
     Call_UpdateVideo (videoMetadata\<lparr>VideoURL := Some url\<rparr>)
       \<in> set (effects (handlerUploadVideo S cfg db r)) \<and>
     UpdateVideo S db (videoMetadata\<lparr>VideoURL := Some url\<rparr>) = (None, db') \<and>
     db_after (handlerUploadVideo S cfg db r) = db'"
proof -
  from video_success [OF assms]
  obtain videoID videoMetadata header tmpFile aspectRatio key v' db' where
    f: "uuid_Parse S (PathValue r ''videoID'') = Inr videoID"
      "GetVideo S db videoID = Inr videoMetadata"
      "request_FormFile S r (Some (10 * 2 ^ 30)) ''video'' = Inr header"
      "ParseMediaType S (Header_Get header ''content-type'') = Inr ''video/mp4''"
      "CreateTemp S [] ''video-upload.mp4'' = Inr tmpFile"
      "getVideoAspectRatio (Tools S) tmpFile = Inr aspectRatio"
    and key: "key = prefix_of aspectRatio @ ''/'' @
          EncodeToString (read_into (make_bytes 32) (fst (rand_Read S 32))) @ ''.'' @ ''mp4''"
    and v': "v' = videoMetadata\<lparr>VideoURL := Some (s3CfDistribution cfg @ ''/'' @ key)\<rparr>"
    and upd: "UpdateVideo S db v' = (None, db')"
    and out: "handlerUploadVideo S cfg db r =
      \<lparr>response = Response 200 (VideoBody v'),
       effects =
        [Call_GetVideo videoID, Call_FormFile ''video'',
         Call_CreateTemp [] ''video-upload.mp4'', Call_Copy tmpFile ''video'',
         Call_Seek tmpFile, Call_Exec ''ffprobe'' (ffprobe_args tmpFile),
         Call_Exec ''ffmpeg'' (ffmpeg_args tmpFile (tmpFile @ ''.processing'')),
         Call_Open (tmpFile @ ''.processing''), Call_RandRead 32,
         Call_PutObject \<lparr>Bucket = s3Bucket cfg, Key = key, Body = tmpFile @ ''.processing'',
                  ContentType = ''video/mp4''\<rparr>,
         Call_UpdateVideo v',
         Call_Close tmpFile, Call_Remove tmpFile, Call_Close ''video''],
       db_after = db'\<rparr>"
    by blast
  let ?name = "EncodeToString (read_into (make_bytes 32) (fst (rand_Read S 32)))"
  let ?url = "s3CfDistribution cfg @ ''/'' @ prefix_of aspectRatio @ ''/'' @ ?name @ ''.'' @ ''mp4''"
  have url: "v' = videoMetadata\<lparr>VideoURL := Some ?url\<rparr>"
    using v' key by simp
  have body: "body = VideoBody v'"
    using assms out by simp
  have called: "Call_UpdateVideo v' \<in> set (effects (handlerUploadVideo S cfg db r))"
    by (simp add: out)
  have after: "db_after (handlerUploadVideo S cfg db r) = db'"
    by (simp add: out)
  show ?thesis
    apply (rule exI [of _ videoID], rule exI [of _ videoMetadata], rule exI [of _ header])
    apply (rule exI [of _ tmpFile], rule exI [of _ aspectRatio], rule exI [of _ "?name"])
    apply (rule exI [of _ "''mp4''"], rule exI [of _ "?url"], rule exI [of _ db'])
    using f prefix_of_values [OF f(6)] url body called after upd
    by (simp add: index_def randBuf_length)
qed

theorem video_url_on_success_witness:
  "response (handlerUploadVideo (demo_services (demo_form ''video'' ''video/mp4'')) demo_cfg
       demo_db (demo_request ''7'' ''alice'')) =
     Response 200 (VideoBody
        \<lparr>ID = 7, UserID = 1,
         VideoURL = Some ''https://cdn.example/landscape/q6urq6urq6urq6urq6urq6urq6urq6urq6urq6urq6s.mp4'',
         ThumbnailURL = None\<rparr>) \<and>
   GetVideo (demo_services (demo_form ''video'' ''video/mp4''))
       (db_after (handlerUploadVideo (demo_services (demo_form ''video'' ''video/mp4'')) demo_cfg
          demo_db (demo_request ''7'' ''alice''))) 7 =
     Inr \<lparr>ID = 7, UserID = 1,
         VideoURL = Some ''https://cdn.example/landscape/q6urq6urq6urq6urq6urq6urq6urq6urq6urq6urq6s.mp4'',
         ThumbnailURL = None\<rparr>"
proof -
  let ?S = "demo_services (demo_form ''video'' ''video/mp4'')"
  let ?r = "demo_request ''7'' ''alice''"
  let ?v = "\<lparr>ID = 7, UserID = 1,
         VideoURL = Some ''https://cdn.example/landscape/q6urq6urq6urq6urq6urq6urq6urq6urq6urq6urq6s.mp4'',
         ThumbnailURL = None\<rparr>"
  have ok: "response (handlerUploadVideo ?S demo_cfg demo_db ?r) = Response 200 (VideoBody ?v)"
    by (simp add: demo_video_upload)
  from video_url_on_success [OF ok]
  obtain videoMetadata url db' where
    body: "VideoBody ?v = VideoBody (videoMetadata\<lparr>VideoURL := Some url\<rparr>)"
    and upd: "UpdateVideo ?S demo_db (videoMetadata\<lparr>VideoURL := Some url\<rparr>) = (None, db')"
    and after: "db_after (handlerUploadVideo ?S demo_cfg demo_db ?r) = db'"
    by blast
  from body have v: "videoMetadata\<lparr>VideoURL := Some url\<rparr> = ?v"
    by simp
  from upd v have "db' = (7, ?v) # demo_db"
    by (simp add: demo_defs)
  with after have "GetVideo ?S (db_after (handlerUploadVideo ?S demo_cfg demo_db ?r)) 7 = Inr ?v"
    by (simp add: demo_defs)
  with ok show ?thesis
    by simp
qed

subsection \<open>Shape of the random name\<close>

text \<open>
  C10. The random name, the unpadded base64url encoding of the 32-byte buffer, has
  exactly 43 characters, all from the base64url alphabet, which has no slash, plus,
  equals sign or dot. So, when a video upload succeeds, the key of its one storage write
  is \<open>prefix/name.mp4\<close> with exactly one slash and exactly one dot; and when a
  thumbnail upload succeeds, the one file it creates is \<^verbatim>\<open>filepath.Join\<close> of the
  assets root and a file name \<open>name.jpeg\<close> or \<open>name.png\<close> without a slash that is
  neither \<open>.\<close> nor \<open>..\<close>, and this path consists of the elements of the cleaned
  assets root followed by the file name as its last element: the file is directly
  inside the assets root.
\<close>

theorem random_name_shape:
  "(length (EncodeToString (read_into (make_bytes 32) delivered)) = 43 \<and>
    set (EncodeToString (read_into (make_bytes 32) delivered)) \<subseteq> set encodeURL \<and>
    CHR ''/'' \<notin> set encodeURL \<and> CHR ''+'' \<notin> set encodeURL \<and>
    CHR ''='' \<notin> set encodeURL \<and> CHR ''.'' \<notin> set encodeURL) \<and>
   (response (handlerUploadVideo S cfg db r) = Response 200 body \<longrightarrow>
     (\<exists>params aspectRatio.
        Call_PutObject params \<in> set (effects (handlerUploadVideo S cfg db r)) \<and>
        (\<forall>other. Call_PutObject other \<in> set (effects (handlerUploadVideo S cfg db r))
           \<longrightarrow> other = params) \<and>
        Key params = prefix_of aspectRatio @ ''/'' @
          EncodeToString (read_into (make_bytes 32) (fst (rand_Read S 32))) @ ''.mp4'' \<and>
        count_list (Key params) CHR ''/'' = 1 \<and>
        count_list (Key params) CHR ''.'' = 1)) \<and>
   (response (handlerUploadThumbnail S cfg db r) = Response 200 body \<longrightarrow>
     (\<exists>filename extension.
        filename = EncodeToString (read_into (make_bytes 32) (fst (rand_Read S 32))) @
          ''.'' @ extension \<and>
        (extension = ''jpeg'' \<or> extension = ''png'') \<and>
        CHR ''/'' \<notin> set filename \<and> filename \<noteq> ''.'' \<and> filename \<noteq> ''..'' \<and>
        Call_Create (Join [assetsRoot cfg, filename])
          \<in> set (effects (handlerUploadThumbnail S cfg db r)) \<and>
        (\<forall>path. Call_Create path \<in> set (effects (handlerUploadThumbnail S cfg db r))
           \<longrightarrow> path = Join [assetsRoot cfg, filename]) \<and>
        Join [assetsRoot cfg, filename] =
          (if is_rooted (assetsRoot cfg) then ''/'' else []) @
            strings_Join (clean_elems (assetsRoot cfg) @ [filename]) ''/''))"
proof -
  let ?name = "\<lambda>d. EncodeToString (read_into (make_bytes 32) d)"
  have name: "length (?name delivered) = 43 \<and> set (?name delivered) \<subseteq> set encodeURL \<and>
    CHR ''/'' \<notin> set encodeURL \<and> CHR ''+'' \<notin> set encodeURL \<and>
    CHR ''='' \<notin> set encodeURL \<and> CHR ''.'' \<notin> set encodeURL"
    by (simp add: EncodeToString_length randBuf_length EncodeToString_set encodeURL_excludes)
  have video: "\<exists>params aspectRatio.
        Call_PutObject params \<in> set (effects (handlerUploadVideo S cfg db r)) \<and>
        (\<forall>other. Call_PutObject other \<in> set (effects (handlerUploadVideo S cfg db r))
           \<longrightarrow> other = params) \<and>
        Key params = prefix_of aspectRatio @ ''/'' @ ?name (fst (rand_Read S 32)) @ ''.mp4'' \<and>
        count_list (Key params) CHR ''/'' = 1 \<and>
        count_list (Key params) CHR ''.'' = 1"
    if ok: "response (handlerUploadVideo S cfg db r) = Response 200 body"
  proof -
    from video_success [OF ok]
    obtain videoID tmpFile aspectRatio key v' db' where
      key: "key = prefix_of aspectRatio @ ''/'' @ ?name (fst (rand_Read S 32)) @ ''.'' @ ''mp4''"
      and out: "handlerUploadVideo S cfg db r =
      \<lparr>response = Response 200 (VideoBody v'),
       effects =
        [Call_GetVideo videoID, Call_FormFile ''video'',
         Call_CreateTemp [] ''video-upload.mp4'', Call_Copy tmpFile ''video'',
         Call_Seek tmpFile, Call_Exec ''ffprobe'' (ffprobe_args tmpFile),
         Call_Exec ''ffmpeg'' (ffmpeg_args tmpFile (tmpFile @ ''.processing'')),
         Call_Open (tmpFile @ ''.processing''), Call_RandRead 32,
         Call_PutObject \<lparr>Bucket = s3Bucket cfg, Key = key, Body = tmpFile @ ''.processing'',
                  ContentType = ''video/mp4''\<rparr>,
         Call_UpdateVideo v',
         Call_Close tmpFile, Call_Remove tmpFile, Call_Close ''video''],
       db_after = db'\<rparr>"
      by blast
    let ?params = "\<lparr>Bucket = s3Bucket cfg, Key = key, Body = tmpFile @ ''.processing'',
                  ContentType = ''video/mp4''\<rparr>"
    have slash: "count_list key CHR ''/'' = 1"
      by (simp add: key name_no_separator prefix_of_no_separator)
    have dot: "count_list key CHR ''.'' = 1"
      by (simp add: key name_no_separator prefix_of_no_separator)
    show ?thesis
      apply (rule exI [of _ "?params"], rule exI [of _ aspectRatio])
      using slash dot key by (simp add: out)
  qed
  have thumb: "\<exists>filename extension.
        filename = ?name (fst (rand_Read S 32)) @ ''.'' @ extension \<and>
        (extension = ''jpeg'' \<or> extension = ''png'') \<and>
        CHR ''/'' \<notin> set filename \<and> filename \<noteq> ''.'' \<and> filename \<noteq> ''..'' \<and>
        Call_Create (Join [assetsRoot cfg, filename])
          \<in> set (effects (handlerUploadThumbnail S cfg db r)) \<and>
        (\<forall>path. Call_Create path \<in> set (effects (handlerUploadThumbnail S cfg db r))
           \<longrightarrow> path = Join [assetsRoot cfg, filename]) \<and>
        Join [assetsRoot cfg, filename] =
          (if is_rooted (assetsRoot cfg) then ''/'' else []) @
            strings_Join (clean_elems (assetsRoot cfg) @ [filename]) ''/''"
    if ok: "response (handlerUploadThumbnail S cfg db r) = Response 200 body"
  proof -
    from thumbnail_success [OF ok]
    obtain videoID extension filename v' db' where
      ext: "extension = ''jpeg'' \<or> extension = ''png''"
      and fn: "filename = ?name (fst (rand_Read S 32)) @ ''.'' @ extension"
      and out: "handlerUploadThumbnail S cfg db r =
      \<lparr>response = Response 200 (VideoBody v'),
       effects =
        [Call_Println, Call_ParseMultipartForm (10 * 1024 * 1024),
         Call_FormFile ''thumbnail'', Call_GetVideo videoID, Call_RandRead 32,
         Call_Create (Join [assetsRoot cfg, filename]),
         Call_Copy (Join [assetsRoot cfg, filename]) ''thumbnail'',
         Call_UpdateVideo v'],
       db_after = db'\<rparr>"
      by blast
    have len: "length filename = 44 + length extension"
      by (simp add: fn EncodeToString_length randBuf_length)
    have sep: "CHR ''/'' \<notin> set filename"
      using ext by (auto simp: fn name_no_separator)
    have ne: "filename \<noteq> []" "filename \<noteq> ''.''" "filename \<noteq> ''..''"
      using len by auto
    have join: "Join [assetsRoot cfg, filename] =
          (if is_rooted (assetsRoot cfg) then ''/'' else []) @
            strings_Join (clean_elems (assetsRoot cfg) @ [filename]) ''/''"
      using sep ne by (rule Join_root_file)
    show ?thesis
      apply (rule exI [of _ filename], rule exI [of _ extension])
      using ext fn sep ne join by (simp add: out)
  qed
  show ?thesis
    using name video thumb by blast
qed


theorem random_name_shape_witness:
  "response (handlerUploadVideo (demo_services (demo_form ''video'' ''video/mp4'')) demo_cfg
       demo_db (demo_request ''7'' ''alice'')) =
     Response 200 (VideoBody
        \<lparr>ID = 7, UserID = 1,
         VideoURL = Some ''https://cdn.example/landscape/q6urq6urq6urq6urq6urq6urq6urq6urq6urq6urq6s.mp4'',
         ThumbnailURL = None\<rparr>) \<and>
   (\<exists>params. Call_PutObject params \<in> set (effects (handlerUploadVideo
         (demo_services (demo_form ''video'' ''video/mp4'')) demo_cfg demo_db
         (demo_request ''7'' ''alice''))) \<and>
      count_list (Key params) CHR ''/'' = 1 \<and> count_list (Key params) CHR ''.'' = 1) \<and>
   response (handlerUploadThumbnail (demo_services (demo_form ''thumbnail'' ''image/png''))
       demo_cfg demo_db (demo_request ''7'' ''alice'')) =
     Response 200 (VideoBody
        \<lparr>ID = 7, UserID = 1, VideoURL = None,
         ThumbnailURL = Some ''http://localhost:8091/assets/q6urq6urq6urq6urq6urq6urq6urq6urq6urq6urq6s.png''\<rparr>) \<and>
   (\<exists>filename. CHR ''/'' \<notin> set filename \<and>
      Call_Create (Join [assetsRoot demo_cfg, filename]) \<in> set (effects (handlerUploadThumbnail
         (demo_services (demo_form ''thumbnail'' ''image/png'')) demo_cfg demo_db
         (demo_request ''7'' ''alice''))) \<and>
      Join [assetsRoot demo_cfg, filename] =
        (if is_rooted (assetsRoot demo_cfg) then ''/'' else []) @
          strings_Join (clean_elems (assetsRoot demo_cfg) @ [filename]) ''/'')"
proof -
  let ?V = "handlerUploadVideo (demo_services (demo_form ''video'' ''video/mp4'')) demo_cfg
       demo_db (demo_request ''7'' ''alice'')"
  let ?T = "handlerUploadThumbnail (demo_services (demo_form ''thumbnail'' ''image/png''))
       demo_cfg demo_db (demo_request ''7'' ''alice'')"
  let ?v = "\<lparr>ID = 7, UserID = 1,
         VideoURL = Some ''https://cdn.example/landscape/q6urq6urq6urq6urq6urq6urq6urq6urq6urq6urq6s.mp4'',
         ThumbnailURL = None\<rparr>"
  let ?t = "\<lparr>ID = 7, UserID = 1, VideoURL = None,
         ThumbnailURL = Some ''http://localhost:8091/assets/q6urq6urq6urq6urq6urq6urq6urq6urq6urq6urq6s.png''\<rparr>"
  have okV: "response ?V = Response 200 (VideoBody ?v)"
    by (simp add: demo_video_upload)
  have okT: "response ?T = Response 200 (VideoBody ?t)"
    by (simp add: demo_thumbnail_upload)
  have "\<exists>params. Call_PutObject params \<in> set (effects ?V) \<and>
      count_list (Key params) CHR ''/'' = 1 \<and> count_list (Key params) CHR ''.'' = 1"
    using random_name_shape [where S = "demo_services (demo_form ''video'' ''video/mp4'')"
        and cfg = demo_cfg and db = demo_db and r = "demo_request ''7'' ''alice''"
        and body = "VideoBody ?v"] okV
    by blast
  moreover have "\<exists>filename. CHR ''/'' \<notin> set filename \<and>
      Call_Create (Join [assetsRoot demo_cfg, filename]) \<in> set (effects ?T) \<and>
      Join [assetsRoot demo_cfg, filename] =
        (if is_rooted (assetsRoot demo_cfg) then ''/'' else []) @
          strings_Join (clean_elems (assetsRoot demo_cfg) @ [filename]) ''/''"
    using random_name_shape [where S = "demo_services (demo_form ''thumbnail'' ''image/png'')"
        and cfg = demo_cfg and db = demo_db and r = "demo_request ''7'' ''alice''"
        and body = "VideoBody ?t"] okT
    by blast
  ultimately show ?thesis
    using okV okT by blast
qed

end
